theory Spec2Isabelle
  imports Complex_Main "HOL-Library.Sublist"
begin

section \<open>Fine-tuning notebook: the training and validation loop\<close>

text \<open>
  The notebook \<^verbatim>\<open>fine-tunning.ipynb\<close> defines two functions, \<^verbatim>\<open>train()\<close> and
  \<^verbatim>\<open>val()\<close>, a loop that calls them once per epoch and a last cell that prints the best
  validation accuracy. Everything else is a call into PyTorch, torchvision or matplotlib.

  The embedding follows the notebook statement by statement:
  \<^item> the Python globals the code reads and writes (the model's parameters and mode flag,
    the gradients, the optimizer's momentum buffers, the four history lists) are the
    fields of one record, \<open>world\<close>, that every function takes and returns;
  \<^item> a raised exception is a value: every function returns \<open>(Inl e, w)\<close> or
    \<open>(Inr v, w)\<close> together with the world \<open>w\<close> as it is at that moment, because a
    notebook keeps its globals after a cell has failed;
  \<^item> the calls whose result the notebook cannot determine (the network's forward pass,
    the value of the loss, the gradient, device transfer, plotting) are the fields of a
    record \<open>lib\<close>, a parameter of every function; each may return a fault;
  \<^item> every library call appends an event to the field \<open>calls\<close>, in the order of the
    source, so that the order of calls can be stated;
  \<^item> Python's \<^verbatim>\<open>float\<close> is idealised: a parameter, a gradient, a count and an accuracy
    are a \<open>real\<close>, and a loss is a \<open>real\<close> or NaN (type \<open>pyfloat\<close>); rounding and
    overflow are not modelled.
\<close>

subsection \<open>Errors, events, the world and the library\<close>

datatype 'e error =
    ZeroDivisionError
  | ValueError
  | IndexError
  | RuntimeError
  | Fault 'e

datatype event =
    EvModelTrain
  | EvModelEval
  | EvNoGradEnter
  | EvNoGradExit
  | EvZeroGrad
  | EvCuda
  | EvForward bool bool
  | EvCriterion
  | EvArgMax
  | EvBackward
  | EvOptStep
  | EvCountMatches
  | EvEpoch nat
  | EvPlot
  | EvClearOutput
  | EvPrint

text \<open>
  The value of a loss: a number or NaN. Python's arithmetic passes a NaN on: the sum, the
  product with a batch size (also with 0) and the quotient of a NaN are NaN.
\<close>

datatype pyfloat = Number real | NaN

fun pf_add :: "pyfloat \<Rightarrow> pyfloat \<Rightarrow> pyfloat" where
  "pf_add (Number a) (Number b) = Number (a + b)"
| "pf_add _ _ = NaN"

fun pf_times :: "pyfloat \<Rightarrow> nat \<Rightarrow> pyfloat" where
  "pf_times (Number a) n = Number (a * real n)"
| "pf_times NaN n = NaN"

fun pf_over :: "pyfloat \<Rightarrow> real \<Rightarrow> pyfloat" where
  "pf_over (Number a) t = Number (a / t)"
| "pf_over NaN t = NaN"

text \<open>
  \<open>'k\<close> names one scalar entry of one parameter tensor, so \<open>params w\<close> is the value of
  every parameter. \<open>grads w k = None\<close> is PyTorch's \<^verbatim>\<open>p.grad is None\<close>. \<open>'b\<close> is the rest
  of the model's state (the running statistics of its normalisation layers).
\<close>

record ('k, 'b) world =
  params :: "'k \<Rightarrow> real"
  grads :: "'k \<Rightarrow> real option"
  momentum_buffer :: "'k \<Rightarrow> real option"
  buffers :: 'b
  training :: bool
  grad_enabled :: bool
  train_accuracy :: "real list"
  val_accuracy :: "real list"
  train_loss :: "pyfloat list"
  val_loss :: "pyfloat list"
  calls :: "event list"

text \<open>
  A data tensor of shape [batch, ...] is the list of its \<open>batch\<close> samples, a label tensor
  the list of its labels, an output tensor of shape [batch, classes] the list of its rows.
\<close>

type_synonym 'x batch = "'x list \<times> int list"

record ('e, 'x, 'k, 'b) lib =
  cuda_data_fault :: "'x list \<Rightarrow> 'e option"
  cuda_labels_fault :: "int list \<Rightarrow> 'e option"
  forward :: "bool \<Rightarrow> ('k \<Rightarrow> real) \<Rightarrow> 'b \<Rightarrow> 'x list \<Rightarrow> 'e + (real list list \<times> 'b)"
  cross_entropy :: "real list list \<Rightarrow> int list \<Rightarrow> 'e + pyfloat"
  gradient :: "bool \<Rightarrow> ('k \<Rightarrow> real) \<Rightarrow> 'b \<Rightarrow> 'x list \<Rightarrow> int list \<Rightarrow> 'e + ('k \<Rightarrow> real)"
  plot_fault :: "pyfloat list \<Rightarrow> pyfloat list \<Rightarrow> real list \<Rightarrow> real list \<Rightarrow> 'e option"

type_synonym ('a, 'e, 'k, 'b) prog =
  "('k, 'b) world \<Rightarrow> ('e error + 'a) \<times> ('k, 'b) world"

definition ret :: "'a \<Rightarrow> ('a, 'e, 'k, 'b) prog" where
  "ret a w = (Inr a, w)"

definition raise :: "'e error \<Rightarrow> ('a, 'e, 'k, 'b) prog" where
  "raise e w = (Inl e, w)"

text \<open>Sequencing: an exception of the first statement skips the rest.\<close>

definition bnd :: "('a, 'e, 'k, 'b) prog \<Rightarrow> ('a \<Rightarrow> ('c, 'e, 'k, 'b) prog) \<Rightarrow> ('c, 'e, 'k, 'b) prog" where
  "bnd m f w = (case m w of (Inl e, w') \<Rightarrow> (Inl e, w') | (Inr a, w') \<Rightarrow> f a w')"

definition emit :: "event \<Rightarrow> (unit, 'e, 'k, 'b) prog" where
  "emit ev w = (Inr (), w\<lparr>calls := calls w @ [ev]\<rparr>)"

subsection \<open>Hyper-parameters (cell 12)\<close>

definition batch_size :: int where "batch_size = 256"
definition lr :: real where "lr = 5 / 100"
definition n_gpus :: int where "n_gpus = 2"
definition momentum :: real where "momentum = 9 / 10"
definition epochs :: int where "epochs = 50"

subsection \<open>The library calls of \<^verbatim>\<open>train()\<close> and \<^verbatim>\<open>val()\<close>\<close>

text \<open>\<^verbatim>\<open>model.train()\<close> and \<^verbatim>\<open>model.eval()\<close> set the mode flag.\<close>

definition model_train :: "(unit, 'e, 'k, 'b) prog" where
  "model_train = bnd (emit EvModelTrain) (\<lambda>_ w. (Inr (), w\<lparr>training := True\<rparr>))"

definition model_eval :: "(unit, 'e, 'k, 'b) prog" where
  "model_eval = bnd (emit EvModelEval) (\<lambda>_ w. (Inr (), w\<lparr>training := False\<rparr>))"

text \<open>\<^verbatim>\<open>optimizer.zero_grad()\<close>: every gradient that exists becomes zero.\<close>

definition optimizer_zero_grad :: "(unit, 'e, 'k, 'b) prog" where
  "optimizer_zero_grad =
     bnd (emit EvZeroGrad)
       (\<lambda>_ w. (Inr (), w\<lparr>grads := (\<lambda>k. map_option (\<lambda>_. 0) (grads w k))\<rparr>))"

text \<open>
  \<^verbatim>\<open>data.cuda()\<close> and \<^verbatim>\<open>labels.cuda()\<close>: the tensor on the device has the same value; the
  transfer may fail.
\<close>

definition cuda_data :: "('e, 'x, 'k, 'b) lib \<Rightarrow> 'x list \<Rightarrow> ('x list, 'e, 'k, 'b) prog" where
  "cuda_data L data =
     bnd (emit EvCuda)
       (\<lambda>_. case cuda_data_fault L data of Some e \<Rightarrow> raise (Fault e) | None \<Rightarrow> ret data)"

definition cuda_labels :: "('e, 'x, 'k, 'b) lib \<Rightarrow> int list \<Rightarrow> (int list, 'e, 'k, 'b) prog" where
  "cuda_labels L labels =
     bnd (emit EvCuda)
       (\<lambda>_. case cuda_labels_fault L labels of Some e \<Rightarrow> raise (Fault e) | None \<Rightarrow> ret labels)"

text \<open>
  \<^verbatim>\<open>model(x)\<close>: the forward pass reads the mode flag, the parameters and the buffers; it
  may update the buffers, never the parameters. The event records the mode flag and
  whether gradient recording is enabled.
\<close>

definition model_call :: "('e, 'x, 'k, 'b) lib \<Rightarrow> 'x list \<Rightarrow> (real list list, 'e, 'k, 'b) prog" where
  "model_call L x w =
     (let w1 = w\<lparr>calls := calls w @ [EvForward (training w) (grad_enabled w)]\<rparr>
      in case forward L (training w) (params w) (buffers w) x of
           Inl e \<Rightarrow> (Inl (Fault e), w1)
         | Inr (output, b') \<Rightarrow> (Inr output, w1\<lparr>buffers := b'\<rparr>))"

text \<open>
  \<^verbatim>\<open>criterion(output, y)\<close> with \<^verbatim>\<open>criterion = nn.CrossEntropyLoss()\<close>: PyTorch raises
  ValueError when the output and the target differ in batch size; the value of the loss
  is the library's.
\<close>

definition criterion :: "('e, 'x, 'k, 'b) lib \<Rightarrow> real list list \<Rightarrow> int list \<Rightarrow> (pyfloat, 'e, 'k, 'b) prog" where
  "criterion L output y =
     bnd (emit EvCriterion)
       (\<lambda>_. if length output \<noteq> length y then raise ValueError
            else case cross_entropy L output y of
                   Inl e \<Rightarrow> raise (Fault e)
                 | Inr loss \<Rightarrow> ret loss)"

text \<open>
  \<^verbatim>\<open>output.max(1)[1]\<close>: for each row the index of its first largest entry; a row without
  entries has no maximum.
\<close>

fun argmax_from :: "real list \<Rightarrow> nat \<Rightarrow> real \<Rightarrow> nat \<Rightarrow> nat" where
  "argmax_from [] i best bi = bi"
| "argmax_from (v # vs) i best bi =
     (if best < v then argmax_from vs (Suc i) v i else argmax_from vs (Suc i) best bi)"

definition row_argmax :: "real list \<Rightarrow> nat" where
  "row_argmax row = (case row of [] \<Rightarrow> 0 | v # vs \<Rightarrow> argmax_from vs 1 v 0)"

definition max1_indices :: "real list list \<Rightarrow> (int list, 'e, 'k, 'b) prog" where
  "max1_indices output =
     bnd (emit EvArgMax)
       (\<lambda>_. if list_ex (\<lambda>row. row = []) output then raise IndexError
            else ret (map (\<lambda>row. int (row_argmax row)) output))"

text \<open>
  \<^verbatim>\<open>loss.backward()\<close>: the gradient of the loss at the current parameters is added to the
  gradients that exist and stored where none does.
\<close>

definition loss_backward :: "('e, 'x, 'k, 'b) lib \<Rightarrow> 'x list \<Rightarrow> int list \<Rightarrow> (unit, 'e, 'k, 'b) prog" where
  "loss_backward L x y w =
     (let w1 = w\<lparr>calls := calls w @ [EvBackward]\<rparr>
      in case gradient L (training w) (params w) (buffers w) x y of
           Inl e \<Rightarrow> (Inl (Fault e), w1)
         | Inr g \<Rightarrow>
             (Inr (), w1\<lparr>grads := (\<lambda>k. Some (case grads w k of None \<Rightarrow> g k | Some d \<Rightarrow> d + g k))\<rparr>))"

text \<open>
  \<^verbatim>\<open>optimizer.step()\<close> with \<^verbatim>\<open>optimizer = SGD(model.parameters(), lr=lr, momentum=momentum)\<close>:
  a parameter without gradient is skipped; otherwise the momentum buffer becomes the
  gradient (first step) or \<open>momentum * buffer + gradient\<close>, and the parameter moves by
  \<open>lr\<close> times the new buffer.
\<close>

definition sgd_buf :: "real option \<Rightarrow> real \<Rightarrow> real" where
  "sgd_buf mb d = (case mb of None \<Rightarrow> d | Some b \<Rightarrow> momentum * b + d)"

definition optimizer_step :: "(unit, 'e, 'k, 'b) prog" where
  "optimizer_step w =
     (Inr (),
      w\<lparr>calls := calls w @ [EvOptStep],
        params := (\<lambda>k. case grads w k of
                          None \<Rightarrow> params w k
                        | Some d \<Rightarrow> params w k - lr * sgd_buf (momentum_buffer w k) d),
        momentum_buffer := (\<lambda>k. case grads w k of
                                   None \<Rightarrow> momentum_buffer w k
                                 | Some d \<Rightarrow> Some (sgd_buf (momentum_buffer w k) d))\<rparr>)"

text \<open>
  \<^verbatim>\<open>torch.sum(preds == y).item()\<close>: the comparison is elementwise, a tensor of one element
  is broadcast, any other difference in length raises RuntimeError; the sum counts the
  positions that are equal.
\<close>

definition tensor_eq :: "int list \<Rightarrow> int list \<Rightarrow> bool list option" where
  "tensor_eq preds y =
     (if length preds = length y then Some (map2 (\<lambda>p v. p = v) preds y)
      else if length preds = 1 then Some (map (\<lambda>v. hd preds = v) y)
      else if length y = 1 then Some (map (\<lambda>p. p = hd y) preds)
      else None)"

definition count_matches :: "int list \<Rightarrow> int list \<Rightarrow> (int, 'e, 'k, 'b) prog" where
  "count_matches preds y =
     bnd (emit EvCountMatches)
       (\<lambda>_. case tensor_eq preds y of
               None \<Rightarrow> raise RuntimeError
             | Some eqs \<Rightarrow> ret (int (length (filter (\<lambda>b. b) eqs))))"

text \<open>
  Python's \<^verbatim>\<open>/\<close>: a zero divisor raises ZeroDivisionError, whatever the dividend; for
  the loss, which may be NaN, and for a number.
\<close>

definition py_div_loss :: "pyfloat \<Rightarrow> real \<Rightarrow> (pyfloat, 'e, 'k, 'b) prog" where
  "py_div_loss a b = (if b = 0 then raise ZeroDivisionError else ret (pf_over a b))"

definition py_div :: "real \<Rightarrow> real \<Rightarrow> (real, 'e, 'k, 'b) prog" where
  "py_div a b = (if b = 0 then raise ZeroDivisionError else ret (a / b))"

subsection \<open>\<^verbatim>\<open>train()\<close>\<close>

text \<open>The three local accumulators of an epoch.\<close>

record stats =
  running_loss :: pyfloat
  running_corrects :: int
  total_count :: real

definition stats0 :: stats where
  "stats0 = \<lparr>running_loss = Number 0, running_corrects = 0, total_count = 0\<rparr>"

text \<open>The body of the loop over \<^verbatim>\<open>train_loader\<close>, for one batch.\<close>

definition train_batch :: "('e, 'x, 'k, 'b) lib \<Rightarrow> 'x batch \<Rightarrow> stats \<Rightarrow> (stats, 'e, 'k, 'b) prog" where
  "train_batch L b st =
     (case b of (data, labels) \<Rightarrow>
        bnd optimizer_zero_grad (\<lambda>_.
        bnd (cuda_data L data) (\<lambda>x.
        bnd (cuda_labels L labels) (\<lambda>y.
        bnd (model_call L x) (\<lambda>output.
        bnd (criterion L output y) (\<lambda>loss.
        bnd (max1_indices output) (\<lambda>preds.
        bnd (loss_backward L x y) (\<lambda>_.
        bnd optimizer_step (\<lambda>_.
        bnd (count_matches preds y) (\<lambda>c.
        ret \<lparr>running_loss = pf_add (running_loss st) (pf_times loss (length x)),
             running_corrects = running_corrects st + c,
             total_count = total_count st + real (length y)\<rparr>))))))))))"

text \<open>
  The loop: the loader yields a batch or fails (\<open>Inl\<close>), as reading a file can; the list
  is what the loader yields in this pass.
\<close>

fun train_loop :: "('e, 'x, 'k, 'b) lib \<Rightarrow> ('e + 'x batch) list \<Rightarrow> stats \<Rightarrow> (stats, 'e, 'k, 'b) prog" where
  "train_loop L [] st = ret st"
| "train_loop L (Inl e # items) st = raise (Fault e)"
| "train_loop L (Inr b # items) st = bnd (train_batch L b st) (train_loop L items)"

definition epoch_result :: "stats \<Rightarrow> (pyfloat \<times> real, 'e, 'k, 'b) prog" where
  "epoch_result st =
     bnd (py_div_loss (running_loss st) (total_count st)) (\<lambda>epoch_loss.
     bnd (py_div (real_of_int (running_corrects st)) (total_count st)) (\<lambda>epoch_acc.
     ret (epoch_loss, epoch_acc)))"

definition train :: "('e, 'x, 'k, 'b) lib \<Rightarrow> ('e + 'x batch) list \<Rightarrow> (pyfloat \<times> real, 'e, 'k, 'b) prog" where
  "train L train_loader =
     bnd model_train (\<lambda>_.
     bnd (train_loop L train_loader stats0) epoch_result)"

subsection \<open>\<^verbatim>\<open>val()\<close>\<close>

text \<open>
  \<^verbatim>\<open>with torch.no_grad():\<close> disables gradient recording for the block and restores the
  previous setting when the block is left, also by an exception.
\<close>

definition no_grad :: "('a, 'e, 'k, 'b) prog \<Rightarrow> ('a, 'e, 'k, 'b) prog" where
  "no_grad body w =
     (case body (w\<lparr>calls := calls w @ [EvNoGradEnter], grad_enabled := False\<rparr>) of
        (r, w') \<Rightarrow> (r, w'\<lparr>calls := calls w' @ [EvNoGradExit], grad_enabled := grad_enabled w\<rparr>))"

definition val_batch :: "('e, 'x, 'k, 'b) lib \<Rightarrow> 'x batch \<Rightarrow> stats \<Rightarrow> (stats, 'e, 'k, 'b) prog" where
  "val_batch L b st =
     (case b of (data, labels) \<Rightarrow>
        bnd (cuda_data L data) (\<lambda>x.
        bnd (cuda_labels L labels) (\<lambda>y.
        bnd (model_call L x) (\<lambda>output.
        bnd (criterion L output y) (\<lambda>loss.
        bnd (max1_indices output) (\<lambda>preds.
        bnd (count_matches preds y) (\<lambda>c.
        ret \<lparr>running_loss = pf_add (running_loss st) (pf_times loss (length x)),
             running_corrects = running_corrects st + c,
             total_count = total_count st + real (length y)\<rparr>)))))))"

fun val_loop :: "('e, 'x, 'k, 'b) lib \<Rightarrow> ('e + 'x batch) list \<Rightarrow> stats \<Rightarrow> (stats, 'e, 'k, 'b) prog" where
  "val_loop L [] st = ret st"
| "val_loop L (Inl e # items) st = raise (Fault e)"
| "val_loop L (Inr b # items) st = bnd (val_batch L b st) (val_loop L items)"

definition val :: "('e, 'x, 'k, 'b) lib \<Rightarrow> ('e + 'x batch) list \<Rightarrow> (pyfloat \<times> real, 'e, 'k, 'b) prog" where
  "val L val_loader =
     bnd model_eval (\<lambda>_.
     bnd (no_grad (val_loop L val_loader stats0)) epoch_result)"

subsection \<open>The data loaders (cell 13)\<close>

text \<open>
  \<^verbatim>\<open>DataLoader(dataset, batch_size=batch_size, ...)\<close> cuts the samples of one pass, in
  the order it draws them, into consecutive groups of \<open>batch_size\<close>; the last group may
  be smaller. A batch is the list of the group's inputs and the list of its labels.
\<close>

function chunks :: "nat \<Rightarrow> 'a list \<Rightarrow> 'a list list" where
  "chunks n xs = (if n = 0 \<or> xs = [] then [] else take n xs # chunks n (drop n xs))"
  by pat_completeness auto
termination
  by (relation "measure (\<lambda>(n, xs). length xs)") auto

declare chunks.simps [simp del]

definition collate :: "('x \<times> int) list \<Rightarrow> 'x batch" where
  "collate samples = (map fst samples, map snd samples)"

definition DataLoader :: "('x \<times> int) list \<Rightarrow> ('e + 'x batch) list" where
  "DataLoader samples = map (\<lambda>c. Inr (collate c)) (chunks (nat batch_size) samples)"

subsection \<open>The training loop (cell 22) and the report (cell 23)\<close>

text \<open>\<^verbatim>\<open>range(epochs)\<close>: the indices from 0, none when \<open>epochs\<close> is not positive.\<close>

definition py_range :: "int \<Rightarrow> nat list" where
  "py_range n = [0..<nat n]"

definition init_history :: "(unit, 'e, 'k, 'b) prog" where
  "init_history w =
     (Inr (), w\<lparr>train_accuracy := [], val_accuracy := [], train_loss := [], val_loss := []\<rparr>)"

definition append_train :: "pyfloat \<times> real \<Rightarrow> (unit, 'e, 'k, 'b) prog" where
  "append_train r w =
     (case r of (loss, acc) \<Rightarrow>
        (Inr (), w\<lparr>train_loss := train_loss w @ [loss],
                  train_accuracy := train_accuracy w @ [acc]\<rparr>))"

definition append_val :: "pyfloat \<times> real \<Rightarrow> (unit, 'e, 'k, 'b) prog" where
  "append_val r w =
     (case r of (loss, acc) \<Rightarrow>
        (Inr (), w\<lparr>val_loss := val_loss w @ [loss],
                  val_accuracy := val_accuracy w @ [acc]\<rparr>))"

text \<open>The \<^verbatim>\<open>plt\<close> and \<^verbatim>\<open>display\<close> calls of one iteration: one redraw of the four curves.\<close>

definition plot :: "('e, 'x, 'k, 'b) lib \<Rightarrow> (unit, 'e, 'k, 'b) prog" where
  "plot L w =
     (let w1 = w\<lparr>calls := calls w @ [EvPlot]\<rparr>
      in case plot_fault L (train_loss w) (val_loss w) (train_accuracy w) (val_accuracy w) of
           Some e \<Rightarrow> (Inl (Fault e), w1)
         | None \<Rightarrow> (Inr (), w1))"

definition epoch_body ::
  "('e, 'x, 'k, 'b) lib \<Rightarrow> ('e + 'x batch) list \<Rightarrow> ('e + 'x batch) list \<Rightarrow> (unit, 'e, 'k, 'b) prog" where
  "epoch_body L train_loader val_loader =
     bnd (train L train_loader) (\<lambda>r.
     bnd (append_train r) (\<lambda>_.
     bnd (val L val_loader) (\<lambda>r.
     bnd (append_val r) (\<lambda>_.
     plot L))))"

text \<open>
  \<open>TR i\<close> and \<open>VA i\<close> are what the two loaders yield in the pass of epoch \<open>i\<close>: the
  training loader shuffles and augments, so its passes differ. \<open>EvEpoch i\<close> marks the
  binding of the loop variable.
\<close>

fun epoch_loop ::
  "('e, 'x, 'k, 'b) lib \<Rightarrow> (nat \<Rightarrow> ('e + 'x batch) list) \<Rightarrow> (nat \<Rightarrow> ('e + 'x batch) list) \<Rightarrow>
     nat list \<Rightarrow> (unit, 'e, 'k, 'b) prog" where
  "epoch_loop L TR VA [] = ret ()"
| "epoch_loop L TR VA (epoch # rest) =
     bnd (emit (EvEpoch epoch)) (\<lambda>_.
     bnd (epoch_body L (TR epoch) (VA epoch)) (\<lambda>_.
     epoch_loop L TR VA rest))"

definition training_loop ::
  "('e, 'x, 'k, 'b) lib \<Rightarrow> int \<Rightarrow> (nat \<Rightarrow> ('e + 'x batch) list) \<Rightarrow> (nat \<Rightarrow> ('e + 'x batch) list) \<Rightarrow>
     (unit, 'e, 'k, 'b) prog" where
  "training_loop L n TR VA =
     bnd init_history (\<lambda>_.
     bnd (epoch_loop L TR VA (py_range n)) (\<lambda>_.
     emit EvClearOutput))"

text \<open>
  Python's \<^verbatim>\<open>max\<close> of a list: ValueError when it is empty; otherwise the first element,
  replaced by each later one that is greater.
\<close>

definition py_max :: "real list \<Rightarrow> (real, 'e, 'k, 'b) prog" where
  "py_max xs =
     (case xs of
        [] \<Rightarrow> raise ValueError
      | x # rest \<Rightarrow> ret (foldl (\<lambda>m v. if m < v then v else m) x rest))"

definition print_best :: "(real, 'e, 'k, 'b) prog" where
  "print_best w = bnd (py_max (val_accuracy w)) (\<lambda>best. bnd (emit EvPrint) (\<lambda>_. ret best)) w"

definition notebook ::
  "('e, 'x, 'k, 'b) lib \<Rightarrow> int \<Rightarrow> (nat \<Rightarrow> ('e + 'x batch) list) \<Rightarrow> (nat \<Rightarrow> ('e + 'x batch) list) \<Rightarrow>
     (real, 'e, 'k, 'b) prog" where
  "notebook L n TR VA = bnd (training_loop L n TR VA) (\<lambda>_. print_best)"

subsection \<open>Observations used in the statements\<close>

text \<open>The number of labels in the batches of a pass.\<close>

fun item_size :: "('e + 'x batch) \<Rightarrow> nat" where
  "item_size (Inl e) = 0"
| "item_size (Inr b) = length (snd b)"

definition samples_seen :: "('e + 'x batch) list \<Rightarrow> nat" where
  "samples_seen items = sum_list (map item_size items)"

text \<open>The world in which the loop of \<^verbatim>\<open>train()\<close>, and of \<^verbatim>\<open>val()\<close>, starts.\<close>

definition train_entry :: "('k, 'b) world \<Rightarrow> ('k, 'b) world" where
  "train_entry w = w\<lparr>calls := calls w @ [EvModelTrain], training := True\<rparr>"

definition val_entry :: "('k, 'b) world \<Rightarrow> ('k, 'b) world" where
  "val_entry w =
     w\<lparr>training := False, calls := calls w @ [EvModelEval, EvNoGradEnter],
       grad_enabled := False\<rparr>"

text \<open>The world \<^verbatim>\<open>val()\<close> is left with when its block ends in \<open>w'\<close>, entered from \<open>w\<close>.\<close>

definition val_exit :: "('k, 'b) world \<Rightarrow> ('k, 'b) world \<Rightarrow> ('k, 'b) world" where
  "val_exit w w' = w'\<lparr>calls := calls w' @ [EvNoGradExit], grad_enabled := grad_enabled w\<rparr>"

text \<open>
  The world in which the loop of cell 22 starts, and the one in which the body of its
  iteration \<open>i\<close> starts.
\<close>

definition loop_entry :: "('k, 'b) world \<Rightarrow> ('k, 'b) world" where
  "loop_entry w = w\<lparr>train_accuracy := [], val_accuracy := [], train_loss := [], val_loss := []\<rparr>"

definition epoch_entry :: "nat \<Rightarrow> ('k, 'b) world \<Rightarrow> ('k, 'b) world" where
  "epoch_entry i w = w\<lparr>calls := calls w @ [EvEpoch i]\<rparr>"

text \<open>The world after \<^verbatim>\<open>train()\<close> has returned \<open>r\<close> and the loop has appended it.\<close>

definition train_appended :: "pyfloat \<times> real \<Rightarrow> ('k, 'b) world \<Rightarrow> ('k, 'b) world" where
  "train_appended r w =
     w\<lparr>train_loss := train_loss w @ [fst r], train_accuracy := train_accuracy w @ [snd r]\<rparr>"

definition val_appended :: "pyfloat \<times> real \<Rightarrow> ('k, 'b) world \<Rightarrow> ('k, 'b) world" where
  "val_appended r w =
     w\<lparr>val_loss := val_loss w @ [fst r], val_accuracy := val_accuracy w @ [snd r]\<rparr>"

text \<open>The library calls of one training batch and of one validation batch, in order.\<close>

definition train_batch_calls :: "bool \<Rightarrow> bool \<Rightarrow> event list" where
  "train_batch_calls tr ge =
     [EvZeroGrad, EvCuda, EvCuda, EvForward tr ge, EvCriterion, EvArgMax,
      EvBackward, EvOptStep, EvCountMatches]"

definition val_batch_calls :: "bool \<Rightarrow> bool \<Rightarrow> event list" where
  "val_batch_calls tr ge =
     [EvCuda, EvCuda, EvForward tr ge, EvCriterion, EvArgMax, EvCountMatches]"

text \<open>
  The same calls in the order in which the specification lists the steps of a training
  batch (claim C5): the arg-max after the optimizer step.
\<close>

definition spec_train_batch_calls :: "bool \<Rightarrow> bool \<Rightarrow> event list" where
  "spec_train_batch_calls tr ge =
     [EvZeroGrad, EvCuda, EvCuda, EvForward tr ge, EvCriterion, EvBackward, EvOptStep,
      EvArgMax, EvCountMatches]"

text \<open>The events that mark an iteration and the calls it makes.\<close>

fun is_marker :: "event \<Rightarrow> bool" where
  "is_marker (EvEpoch i) = True"
| "is_marker EvModelTrain = True"
| "is_marker EvModelEval = True"
| "is_marker EvPlot = True"
| "is_marker EvClearOutput = True"
| "is_marker _ = False"

subsection \<open>A small library and world to run the definitions on\<close>

text \<open>
  A model with two weights and no bias on inputs of one number: the logits of \<open>x\<close> are
  \<open>w\<^sub>0 x\<close> and \<open>w\<^sub>1 x\<close>, and the gradient of any loss is a multiple of the inputs, so it
  is zero on a batch of zeros.
\<close>

definition toy_lib :: "(unit, real, bool, unit) lib" where
  "toy_lib =
     \<lparr>cuda_data_fault = (\<lambda>_. None),
      cuda_labels_fault = (\<lambda>_. None),
      forward = (\<lambda>tr p b xs. Inr (map (\<lambda>x. [p False * x, p True * x]) xs, b)),
      cross_entropy = (\<lambda>output y. Inr (Number 1)),
      gradient = (\<lambda>tr p b xs ys. Inr (\<lambda>k. sum_list xs)),
      plot_fault = (\<lambda>_ _ _ _. None)\<rparr>"

text \<open>The same library on a machine without a device: every transfer fails.\<close>

definition no_device_lib :: "(unit, real, bool, unit) lib" where
  "no_device_lib = toy_lib\<lparr>cuda_data_fault := (\<lambda>_. Some ())\<rparr>"

text \<open>The same library with a loss that is NaN on every batch.\<close>

definition nan_lib :: "(unit, real, bool, unit) lib" where
  "nan_lib = toy_lib\<lparr>cross_entropy := (\<lambda>output y. Inr NaN)\<rparr>"

text \<open>A loader that yields, in every pass, one batch of one zero input with label 0.\<close>

definition zero_batches :: "nat \<Rightarrow> (unit + real batch) list" where
  "zero_batches i = [Inr ([0], [0])]"

definition world0 :: "(bool, unit) world" where
  "world0 =
     \<lparr>params = (\<lambda>k. if k then 2 else 1),
      grads = (\<lambda>k. None),
      momentum_buffer = (\<lambda>k. None),
      buffers = (),
      training = False,
      grad_enabled = True,
      train_accuracy = [],
      val_accuracy = [],
      train_loss = [],
      val_loss = [],
      calls = []\<rparr>"

section \<open>Properties\<close>

subsection \<open>Sequencing\<close>

lemmas prim_defs = ret_def raise_def bnd_def emit_def model_train_def model_eval_def
  optimizer_zero_grad_def cuda_data_def cuda_labels_def model_call_def criterion_def
  max1_indices_def loss_backward_def optimizer_step_def count_matches_def py_div_def
  py_div_loss_def

lemma bnd_ret: "bnd (ret a) f = f a"
  by (rule ext) (simp add: bnd_def ret_def)

lemma bnd_raise: "bnd (raise e) f = raise e"
  by (rule ext) (simp add: bnd_def raise_def)

lemma bnd_assoc: "bnd (bnd m f) g = bnd m (\<lambda>a. bnd (f a) g)"
  by (rule ext) (simp add: bnd_def split: prod.splits sum.splits)

lemma bnd_Inl: "fst (m w) = Inl e \<Longrightarrow> bnd m f w = (Inl e, snd (m w))"
  by (cases "m w") (simp add: bnd_def)

lemma bnd_Inr: "fst (m w) = Inr a \<Longrightarrow> bnd m f w = f a (snd (m w))"
  by (cases "m w") (simp add: bnd_def)

lemma fst_bnd_InrD:
  "fst (bnd m f w) = Inr c \<Longrightarrow> \<exists>a. fst (m w) = Inr a \<and> fst (f a (snd (m w))) = Inr c"
  by (cases "m w") (auto simp: bnd_def split: sum.splits)

lemma tensor_eq_count:
  assumes "length preds = length y" and "tensor_eq preds y = Some eqs"
  shows "length (filter (\<lambda>b. b) eqs) \<le> length y"
proof -
  from assms have "length eqs = length y"
    by (auto simp: tensor_eq_def)
  with length_filter_le [of "\<lambda>b. b" eqs] show ?thesis
    by simp
qed

lemma train_batch_Inr:
  assumes "fst (train_batch L (data, labels) st w) = Inr st'"
  shows "\<exists>output b' loss g c.
           forward L (training w) (params w) (buffers w) data = Inr (output, b')
         \<and> cross_entropy L output labels = Inr loss
         \<and> gradient L (training w) (params w) b' data labels = Inr g
         \<and> 0 \<le> c \<and> c \<le> int (length labels)
         \<and> st' = \<lparr>running_loss = pf_add (running_loss st) (pf_times loss (length data)),
                  running_corrects = running_corrects st + c,
                  total_count = total_count st + real (length labels)\<rparr>
         \<and> params (snd (train_batch L (data, labels) st w)) =
             (\<lambda>k. params w k - lr * sgd_buf (momentum_buffer w k) (g k))"
  using assms
  apply (clarsimp simp: train_batch_def prim_defs Let_def
      split: option.splits sum.splits if_splits prod.splits)
  apply (frule tensor_eq_count [rotated])
   apply simp
  apply (auto simp: fun_eq_iff split: option.splits)
  done

lemma val_batch_Inr:
  assumes "fst (val_batch L (data, labels) st w) = Inr st'"
  shows "\<exists>output b' loss c.
           forward L (training w) (params w) (buffers w) data = Inr (output, b')
         \<and> cross_entropy L output labels = Inr loss
         \<and> 0 \<le> c \<and> c \<le> int (length labels)
         \<and> st' = \<lparr>running_loss = pf_add (running_loss st) (pf_times loss (length data)),
                  running_corrects = running_corrects st + c,
                  total_count = total_count st + real (length labels)\<rparr>"
  using assms
  apply (clarsimp simp: val_batch_def prim_defs Let_def
      split: option.splits sum.splits if_splits prod.splits)
  apply (frule tensor_eq_count [rotated])
   apply simp
  apply auto
  done

lemma train_batch_frame:
  "train_loss (snd (train_batch L b st w)) = train_loss w
 \<and> train_accuracy (snd (train_batch L b st w)) = train_accuracy w
 \<and> val_loss (snd (train_batch L b st w)) = val_loss w
 \<and> val_accuracy (snd (train_batch L b st w)) = val_accuracy w
 \<and> training (snd (train_batch L b st w)) = training w
 \<and> grad_enabled (snd (train_batch L b st w)) = grad_enabled w"
  by (cases b)
    (simp add: train_batch_def prim_defs Let_def
      split: option.splits sum.splits if_splits prod.splits)

lemma val_batch_frame:
  "train_loss (snd (val_batch L b st w)) = train_loss w
 \<and> train_accuracy (snd (val_batch L b st w)) = train_accuracy w
 \<and> val_loss (snd (val_batch L b st w)) = val_loss w
 \<and> val_accuracy (snd (val_batch L b st w)) = val_accuracy w
 \<and> training (snd (val_batch L b st w)) = training w
 \<and> grad_enabled (snd (val_batch L b st w)) = grad_enabled w
 \<and> params (snd (val_batch L b st w)) = params w
 \<and> grads (snd (val_batch L b st w)) = grads w
 \<and> momentum_buffer (snd (val_batch L b st w)) = momentum_buffer w"
  by (cases b)
    (simp add: val_batch_def prim_defs Let_def
      split: option.splits sum.splits if_splits prod.splits)

lemma tensor_eq_same_length:
  "length preds = length y \<Longrightarrow> tensor_eq preds y = Some (map2 (\<lambda>p v. p = v) preds y)"
  by (simp add: tensor_eq_def)

lemma train_batch_calls_prefix:
  "\<exists>evs. calls (snd (train_batch L b st w)) = calls w @ evs \<and> evs \<noteq> []
       \<and> prefix evs (train_batch_calls (training w) (grad_enabled w))
       \<and> (evs = train_batch_calls (training w) (grad_enabled w)
            \<longleftrightarrow> (\<exists>st'. fst (train_batch L b st w) = Inr st'))"
  by (cases b)
    (auto simp: train_batch_def prim_defs Let_def train_batch_calls_def tensor_eq_same_length
      split: option.splits sum.splits if_splits prod.splits)

lemma val_batch_calls_prefix:
  "\<exists>evs. calls (snd (val_batch L b st w)) = calls w @ evs \<and> evs \<noteq> []
       \<and> prefix evs (val_batch_calls (training w) (grad_enabled w))
       \<and> (evs = val_batch_calls (training w) (grad_enabled w)
            \<longleftrightarrow> (\<exists>st'. fst (val_batch L b st w) = Inr st'))"
  by (cases b)
    (auto simp: val_batch_def prim_defs Let_def val_batch_calls_def tensor_eq_same_length
      split: option.splits sum.splits if_splits prod.splits)

lemma snd_bnd:
  "snd (bnd m f w) = (case fst (m w) of Inl e \<Rightarrow> snd (m w) | Inr a \<Rightarrow> snd (f a (snd (m w))))"
  by (cases "m w") (simp add: bnd_def split: sum.splits)

lemma fst_bnd:
  "fst (bnd m f w) = (case fst (m w) of Inl e \<Rightarrow> Inl e | Inr a \<Rightarrow> fst (f a (snd (m w))))"
  by (cases "m w") (simp add: bnd_def split: sum.splits)

lemma train_loop_append:
  "train_loop L (pre @ post) st = bnd (train_loop L pre st) (train_loop L post)"
proof (induction pre arbitrary: st)
  case Nil
  show ?case by (simp add: bnd_ret)
next
  case (Cons item pre)
  have "train_loop L (pre @ post) = (\<lambda>a. bnd (train_loop L pre a) (train_loop L post))"
    by (rule ext) (rule Cons.IH)
  then show ?case
    by (cases item) (simp_all add: bnd_raise bnd_assoc)
qed

lemma val_loop_append:
  "val_loop L (pre @ post) st = bnd (val_loop L pre st) (val_loop L post)"
proof (induction pre arbitrary: st)
  case Nil
  show ?case by (simp add: bnd_ret)
next
  case (Cons item pre)
  have "val_loop L (pre @ post) = (\<lambda>a. bnd (val_loop L pre a) (val_loop L post))"
    by (rule ext) (rule Cons.IH)
  then show ?case
    by (cases item) (simp_all add: bnd_raise bnd_assoc)
qed

lemma train_batch_calls_Inr:
  assumes "fst (train_batch L b st w) = Inr st'"
  shows "calls (snd (train_batch L b st w)) = calls w @ train_batch_calls (training w) (grad_enabled w)"
  using assms train_batch_calls_prefix [of L b st w] by auto

lemma val_batch_calls_Inr:
  assumes "fst (val_batch L b st w) = Inr st'"
  shows "calls (snd (val_batch L b st w)) = calls w @ val_batch_calls (training w) (grad_enabled w)"
  using assms val_batch_calls_prefix [of L b st w] by auto

lemma train_loop_Inr:
  "fst (train_loop L items st w) = Inr st' \<Longrightarrow>
     total_count st' = total_count st + real (samples_seen items)
   \<and> calls (snd (train_loop L items st w)) =
       calls w @ concat (replicate (length items) (train_batch_calls (training w) (grad_enabled w)))"
proof (induction items arbitrary: st w)
  case Nil
  then show ?case by (simp add: ret_def samples_seen_def)
next
  case (Cons item items)
  show ?case
  proof (cases item)
    case (Inl e)
    with Cons.prems show ?thesis by (simp add: raise_def)
  next
    case (Inr b)
    obtain data labels where b: "b = (data, labels)" by (cases b)
    let ?w1 = "snd (train_batch L b st w)"
    from Cons.prems Inr obtain st1 where
      s1: "fst (train_batch L b st w) = Inr st1" and
      s2: "fst (train_loop L items st1 ?w1) = Inr st'"
      by (auto dest: fst_bnd_InrD)
    from s1 have run: "train_loop L (item # items) st w = train_loop L items st1 ?w1"
      by (simp add: Inr bnd_Inr)
    from train_batch_Inr [OF s1 [unfolded b]]
    have tot: "total_count st1 = total_count st + real (length labels)"
      by auto
    have fl: "training ?w1 = training w" "grad_enabled ?w1 = grad_enabled w"
      using train_batch_frame [of L b st w] by simp_all
    from Cons.IH [OF s2] tot fl train_batch_calls_Inr [OF s1] show ?thesis
      unfolding run by (simp add: samples_seen_def Inr b)
  qed
qed

lemma val_loop_Inr:
  "fst (val_loop L items st w) = Inr st' \<Longrightarrow>
     total_count st' = total_count st + real (samples_seen items)
   \<and> calls (snd (val_loop L items st w)) =
       calls w @ concat (replicate (length items) (val_batch_calls (training w) (grad_enabled w)))"
proof (induction items arbitrary: st w)
  case Nil
  then show ?case by (simp add: ret_def samples_seen_def)
next
  case (Cons item items)
  show ?case
  proof (cases item)
    case (Inl e)
    with Cons.prems show ?thesis by (simp add: raise_def)
  next
    case (Inr b)
    obtain data labels where b: "b = (data, labels)" by (cases b)
    let ?w1 = "snd (val_batch L b st w)"
    from Cons.prems Inr obtain st1 where
      s1: "fst (val_batch L b st w) = Inr st1" and
      s2: "fst (val_loop L items st1 ?w1) = Inr st'"
      by (auto dest: fst_bnd_InrD)
    from s1 have run: "val_loop L (item # items) st w = val_loop L items st1 ?w1"
      by (simp add: Inr bnd_Inr)
    from val_batch_Inr [OF s1 [unfolded b]]
    have tot: "total_count st1 = total_count st + real (length labels)"
      by auto
    have fl: "training ?w1 = training w" "grad_enabled ?w1 = grad_enabled w"
      using val_batch_frame [of L b st w] by simp_all
    from Cons.IH [OF s2] tot fl val_batch_calls_Inr [OF s1] show ?thesis
      unfolding run by (simp add: samples_seen_def Inr b)
  qed
qed

text \<open>What a loop leaves alone, whether it completes or not.\<close>

lemma train_loop_frame:
  "train_loss (snd (train_loop L items st w)) = train_loss w
 \<and> train_accuracy (snd (train_loop L items st w)) = train_accuracy w
 \<and> val_loss (snd (train_loop L items st w)) = val_loss w
 \<and> val_accuracy (snd (train_loop L items st w)) = val_accuracy w
 \<and> training (snd (train_loop L items st w)) = training w
 \<and> grad_enabled (snd (train_loop L items st w)) = grad_enabled w"
proof (induction items arbitrary: st w)
  case Nil
  show ?case by (simp add: ret_def)
next
  case (Cons item items)
  show ?case
  proof (cases item)
    case (Inl e)
    then show ?thesis by (simp add: raise_def)
  next
    case (Inr b)
    show ?thesis
      using train_batch_frame [of L b st w] Cons.IH
      by (simp add: Inr snd_bnd split: sum.splits)
  qed
qed

lemma val_loop_frame:
  "train_loss (snd (val_loop L items st w)) = train_loss w
 \<and> train_accuracy (snd (val_loop L items st w)) = train_accuracy w
 \<and> val_loss (snd (val_loop L items st w)) = val_loss w
 \<and> val_accuracy (snd (val_loop L items st w)) = val_accuracy w
 \<and> training (snd (val_loop L items st w)) = training w
 \<and> grad_enabled (snd (val_loop L items st w)) = grad_enabled w
 \<and> params (snd (val_loop L items st w)) = params w
 \<and> grads (snd (val_loop L items st w)) = grads w
 \<and> momentum_buffer (snd (val_loop L items st w)) = momentum_buffer w"
proof (induction items arbitrary: st w)
  case Nil
  show ?case by (simp add: ret_def)
next
  case (Cons item items)
  show ?case
  proof (cases item)
    case (Inl e)
    then show ?thesis by (simp add: raise_def)
  next
    case (Inr b)
    show ?thesis
      using val_batch_frame [of L b st w] Cons.IH
      by (simp add: Inr snd_bnd split: sum.splits)
  qed
qed

text \<open>The calls of a loop, whether it completes or not, are calls of its batches.\<close>

lemma train_loop_calls:
  "\<exists>evs. calls (snd (train_loop L items st w)) = calls w @ evs
       \<and> set evs \<subseteq> set (train_batch_calls (training w) (grad_enabled w))"
proof (induction items arbitrary: st w)
  case Nil
  show ?case by (simp add: ret_def)
next
  case (Cons item items)
  show ?case
  proof (cases item)
    case (Inl e)
    then show ?thesis by (simp add: raise_def)
  next
    case (Inr b)
    let ?w1 = "snd (train_batch L b st w)"
    obtain evs1 where e1: "calls ?w1 = calls w @ evs1"
      "prefix evs1 (train_batch_calls (training w) (grad_enabled w))"
      using train_batch_calls_prefix [of L b st w] by blast
    have fl: "training ?w1 = training w" "grad_enabled ?w1 = grad_enabled w"
      using train_batch_frame [of L b st w] by simp_all
    show ?thesis
    proof (cases "fst (train_batch L b st w)")
      case (Inl e)
      then show ?thesis
        using e1 by (auto simp: \<open>item = Inr b\<close> snd_bnd dest: set_mono_prefix)
    next
      case (Inr st1)
      from Cons.IH [of st1 ?w1] obtain evs2 where
        e2: "calls (snd (train_loop L items st1 ?w1)) = calls ?w1 @ evs2"
        "set evs2 \<subseteq> set (train_batch_calls (training w) (grad_enabled w))"
        by (auto simp: fl)
      have "set (evs1 @ evs2) \<subseteq> set (train_batch_calls (training w) (grad_enabled w))"
        using e1(2) e2(2) by (auto dest: set_mono_prefix)
      moreover have "calls (snd (train_loop L (item # items) st w)) = calls w @ (evs1 @ evs2)"
        using e1(1) e2(1) Inr by (simp add: \<open>item = Inr b\<close> snd_bnd)
      ultimately show ?thesis by blast
    qed
  qed
qed

lemma val_loop_calls:
  "\<exists>evs. calls (snd (val_loop L items st w)) = calls w @ evs
       \<and> set evs \<subseteq> set (val_batch_calls (training w) (grad_enabled w))"
proof (induction items arbitrary: st w)
  case Nil
  show ?case by (simp add: ret_def)
next
  case (Cons item items)
  show ?case
  proof (cases item)
    case (Inl e)
    then show ?thesis by (simp add: raise_def)
  next
    case (Inr b)
    let ?w1 = "snd (val_batch L b st w)"
    obtain evs1 where e1: "calls ?w1 = calls w @ evs1"
      "prefix evs1 (val_batch_calls (training w) (grad_enabled w))"
      using val_batch_calls_prefix [of L b st w] by blast
    have fl: "training ?w1 = training w" "grad_enabled ?w1 = grad_enabled w"
      using val_batch_frame [of L b st w] by simp_all
    show ?thesis
    proof (cases "fst (val_batch L b st w)")
      case (Inl e)
      then show ?thesis
        using e1 by (auto simp: \<open>item = Inr b\<close> snd_bnd dest: set_mono_prefix)
    next
      case (Inr st1)
      from Cons.IH [of st1 ?w1] obtain evs2 where
        e2: "calls (snd (val_loop L items st1 ?w1)) = calls ?w1 @ evs2"
        "set evs2 \<subseteq> set (val_batch_calls (training w) (grad_enabled w))"
        by (auto simp: fl)
      have "set (evs1 @ evs2) \<subseteq> set (val_batch_calls (training w) (grad_enabled w))"
        using e1(2) e2(2) by (auto dest: set_mono_prefix)
      moreover have "calls (snd (val_loop L (item # items) st w)) = calls w @ (evs1 @ evs2)"
        using e1(1) e2(1) Inr by (simp add: \<open>item = Inr b\<close> snd_bnd)
      ultimately show ?thesis by blast
    qed
  qed
qed

text \<open>\<^verbatim>\<open>train()\<close> and \<^verbatim>\<open>val()\<close> in terms of their loops.\<close>

lemma epoch_result_eq:
  "epoch_result st w =
     (if total_count st = 0 then (Inl ZeroDivisionError, w)
      else (Inr (pf_over (running_loss st) (total_count st),
                 real_of_int (running_corrects st) / total_count st), w))"
  by (simp add: epoch_result_def py_div_def py_div_loss_def bnd_def ret_def raise_def)

lemma train_eq:
  "train L items w = bnd (train_loop L items stats0) epoch_result (train_entry w)"
  by (simp add: train_def model_train_def train_entry_def bnd_def emit_def)

lemma val_eq:
  "val L items w =
     (case fst (val_loop L items stats0 (val_entry w)) of
        Inl e \<Rightarrow> (Inl e, val_exit w (snd (val_loop L items stats0 (val_entry w))))
      | Inr st \<Rightarrow> epoch_result st (val_exit w (snd (val_loop L items stats0 (val_entry w)))))"
proof -
  have "val L items w =
     (case val_loop L items stats0 (val_entry w) of
        (r, w') \<Rightarrow> (case r of Inl e \<Rightarrow> (Inl e, val_exit w w') | Inr st \<Rightarrow> epoch_result st (val_exit w w')))"
    unfolding val_def model_eval_def bnd_def emit_def no_grad_def val_exit_def
    by (simp add: val_entry_def split: prod.splits sum.splits)
  then show ?thesis
    by (cases "val_loop L items stats0 (val_entry w)") (simp split: sum.splits)
qed

lemma train_snd:
  "snd (train L items w) = snd (train_loop L items stats0 (train_entry w))"
  by (simp add: train_eq snd_bnd epoch_result_eq split: sum.splits)

lemma val_snd:
  "snd (val L items w) = val_exit w (snd (val_loop L items stats0 (val_entry w)))"
  by (simp add: val_eq epoch_result_eq split: sum.splits)

lemma train_fst:
  "fst (train L items w) =
     (case fst (train_loop L items stats0 (train_entry w)) of
        Inl e \<Rightarrow> Inl e
      | Inr st \<Rightarrow> fst (epoch_result st (snd (train_loop L items stats0 (train_entry w)))))"
  by (simp add: train_eq fst_bnd)

lemma val_fst:
  "fst (val L items w) =
     (case fst (val_loop L items stats0 (val_entry w)) of
        Inl e \<Rightarrow> Inl e
      | Inr st \<Rightarrow> fst (epoch_result st (val_exit w (snd (val_loop L items stats0 (val_entry w))))))"
  by (simp add: val_eq split: sum.splits)

lemma train_loop_corrects:
  "fst (train_loop L items st w) = Inr st' \<Longrightarrow>
     running_corrects st \<le> running_corrects st'
   \<and> real_of_int (running_corrects st' - running_corrects st) \<le> total_count st' - total_count st"
proof (induction items arbitrary: st w)
  case Nil
  then show ?case by (simp add: ret_def)
next
  case (Cons item items)
  show ?case
  proof (cases item)
    case (Inl e)
    with Cons.prems show ?thesis by (simp add: raise_def)
  next
    case (Inr b)
    obtain data labels where b: "b = (data, labels)" by (cases b)
    from Cons.prems Inr obtain st1 where
      s1: "fst (train_batch L b st w) = Inr st1" and
      s2: "fst (train_loop L items st1 (snd (train_batch L b st w))) = Inr st'"
      by (auto dest: fst_bnd_InrD)
    from train_batch_Inr [OF s1 [unfolded b]] obtain c where
      "0 \<le> c" "c \<le> int (length labels)"
      "running_corrects st1 = running_corrects st + c"
      "total_count st1 = total_count st + real (length labels)"
      by auto
    with Cons.IH [OF s2] show ?thesis
      by auto
  qed
qed

lemma val_loop_corrects:
  "fst (val_loop L items st w) = Inr st' \<Longrightarrow>
     running_corrects st \<le> running_corrects st'
   \<and> real_of_int (running_corrects st' - running_corrects st) \<le> total_count st' - total_count st"
proof (induction items arbitrary: st w)
  case Nil
  then show ?case by (simp add: ret_def)
next
  case (Cons item items)
  show ?case
  proof (cases item)
    case (Inl e)
    with Cons.prems show ?thesis by (simp add: raise_def)
  next
    case (Inr b)
    obtain data labels where b: "b = (data, labels)" by (cases b)
    from Cons.prems Inr obtain st1 where
      s1: "fst (val_batch L b st w) = Inr st1" and
      s2: "fst (val_loop L items st1 (snd (val_batch L b st w))) = Inr st'"
      by (auto dest: fst_bnd_InrD)
    from val_batch_Inr [OF s1 [unfolded b]] obtain c where
      "0 \<le> c" "c \<le> int (length labels)"
      "running_corrects st1 = running_corrects st + c"
      "total_count st1 = total_count st + real (length labels)"
      by auto
    with Cons.IH [OF s2] show ?thesis
      by auto
  qed
qed

lemma accuracy_bounds:
  assumes "(0::int) \<le> c" and "real_of_int c \<le> t" and "t \<noteq> 0"
  shows "0 \<le> real_of_int c / t \<and> real_of_int c / t \<le> 1"
proof -
  from assms have "0 < t" by linarith
  with assms show ?thesis by simp
qed


lemmas toy_defs = train_def val_def train_batch_def val_batch_def prim_defs no_grad_def
  tensor_eq_def epoch_result_def stats0_def toy_lib_def world0_def row_argmax_def Let_def
  lr_def momentum_def sgd_buf_def train_entry_def val_entry_def samples_seen_def


subsection \<open>Running statistics\<close>

text \<open>
  Claim C1. In \<^verbatim>\<open>train()\<close> and in \<^verbatim>\<open>val()\<close> the loop over a sequence of batches is the
  loop over any initial part of it followed by the loop over the rest, and whenever the
  loop has got through an initial part, the sample-count accumulator \<^verbatim>\<open>total\<close> is the sum
  of the batch sizes of that part. The pair a completed epoch returns is the
  accumulated weighted loss divided by the accumulated count, and the accumulated
  number of correct predictions divided by the accumulated count.
\<close>

theorem C1_running_statistics:
  "train_loop L (pre @ post) st0 = bnd (train_loop L pre st0) (train_loop L post)
 \<and> val_loop L (pre @ post) st0 = bnd (val_loop L pre st0) (val_loop L post)
 \<and> (fst (train_loop L pre stats0 w) = Inr st \<longrightarrow> total_count st = real (samples_seen pre))
 \<and> (fst (val_loop L pre stats0 w) = Inr st \<longrightarrow> total_count st = real (samples_seen pre))
 \<and> (fst (train L items w) = Inr (l, a) \<longrightarrow>
      (\<exists>s. fst (train_loop L items stats0 (train_entry w)) = Inr s
          \<and> total_count s = real (samples_seen items)
          \<and> l = pf_over (running_loss s) (total_count s)
          \<and> a = real_of_int (running_corrects s) / total_count s))
 \<and> (fst (val L items w) = Inr (l, a) \<longrightarrow>
      (\<exists>s. fst (val_loop L items stats0 (val_entry w)) = Inr s
          \<and> total_count s = real (samples_seen items)
          \<and> l = pf_over (running_loss s) (total_count s)
          \<and> a = real_of_int (running_corrects s) / total_count s))"
proof -
  have t: "fst (train_loop L xs stats0 v) = Inr s \<Longrightarrow> total_count s = real (samples_seen xs)"
    for xs v s
    using train_loop_Inr [of L xs stats0 v s] by (simp add: stats0_def)
  have u: "fst (val_loop L xs stats0 v) = Inr s \<Longrightarrow> total_count s = real (samples_seen xs)"
    for xs v s
    using val_loop_Inr [of L xs stats0 v s] by (simp add: stats0_def)
  have tr: "\<exists>s. fst (train_loop L items stats0 (train_entry w)) = Inr s
          \<and> total_count s = real (samples_seen items)
          \<and> l = pf_over (running_loss s) (total_count s)
          \<and> a = real_of_int (running_corrects s) / total_count s"
    if "fst (train L items w) = Inr (l, a)"
    using that t [of items "train_entry w"]
    by (auto simp: train_fst epoch_result_eq split: sum.splits if_splits)
  have va: "\<exists>s. fst (val_loop L items stats0 (val_entry w)) = Inr s
          \<and> total_count s = real (samples_seen items)
          \<and> l = pf_over (running_loss s) (total_count s)
          \<and> a = real_of_int (running_corrects s) / total_count s"
    if "fst (val L items w) = Inr (l, a)"
    using that u [of items "val_entry w"]
    by (auto simp: val_fst epoch_result_eq split: sum.splits if_splits)
  show ?thesis
    using t [of pre w st] u [of pre w st] tr va
    by (simp add: train_loop_append val_loop_append)
qed


theorem C1_running_statistics_witness:
  "fst (train_loop toy_lib [Inr ([1, 2], [0, 1])] stats0 world0)
     = Inr \<lparr>running_loss = Number 2, running_corrects = 1, total_count = 2\<rparr>
 \<and> fst (val_loop toy_lib [Inr ([1, 2], [0, 1])] stats0 world0)
     = Inr \<lparr>running_loss = Number 2, running_corrects = 1, total_count = 2\<rparr>
 \<and> samples_seen [Inr ([1, 2], [0, 1]) :: unit + real batch] = 2
 \<and> fst (train toy_lib [Inr ([1, 2], [0, 1]), Inr ([3], [1])] world0) = Inr (Number 1, 2 / 3)
 \<and> fst (val toy_lib [Inr ([1, 2], [0, 1]), Inr ([3], [1])] world0) = Inr (Number 1, 2 / 3)
 \<and> fst (train_loop toy_lib [Inr ([1, 2], [0, 1]), Inr ([3], [1])] stats0 (train_entry world0))
     = Inr \<lparr>running_loss = Number 3, running_corrects = 2, total_count = 3\<rparr>"
proof -
  have h1: "fst (train_loop toy_lib [Inr ([1, 2], [0, 1])] stats0 world0)
     = Inr \<lparr>running_loss = Number 2, running_corrects = 1, total_count = 2\<rparr>"
    by (simp add: toy_defs)
  have h2: "fst (val_loop toy_lib [Inr ([1, 2], [0, 1])] stats0 world0)
     = Inr \<lparr>running_loss = Number 2, running_corrects = 1, total_count = 2\<rparr>"
    by (simp add: toy_defs)
  have h3: "fst (train toy_lib [Inr ([1, 2], [0, 1]), Inr ([3], [1])] world0) = Inr (Number 1, 2 / 3)"
    by (simp add: toy_defs)
  have h4: "fst (val toy_lib [Inr ([1, 2], [0, 1]), Inr ([3], [1])] world0) = Inr (Number 1, 2 / 3)"
    by (simp add: toy_defs)
  have h5: "fst (train_loop toy_lib [Inr ([1, 2], [0, 1]), Inr ([3], [1])] stats0 (train_entry world0))
     = Inr \<lparr>running_loss = Number 3, running_corrects = 2, total_count = 3\<rparr>"
    by (simp add: toy_defs)
  from C1_running_statistics [of toy_lib "[Inr ([1, 2], [0, 1])]" "[Inr ([3], [1])]" stats0
      world0 "\<lparr>running_loss = Number 2, running_corrects = 1, total_count = 2\<rparr>"
      "[Inr ([1, 2], [0, 1]), Inr ([3], [1])]" "Number 1" "2 / 3"] h1 h2 h3 h4
  have "samples_seen [Inr ([1, 2], [0, 1]) :: unit + real batch] = 2"
    by simp
  with h1 h2 h3 h4 h5 show ?thesis by simp
qed

subsection \<open>Accuracy\<close>

text \<open>
  Claim C4. The accuracy that \<^verbatim>\<open>train()\<close> or \<^verbatim>\<open>val()\<close> returns lies between 0 and 1,
  because every batch adds to \<^verbatim>\<open>running_corrects\<close> a number that is not negative and
  not more than what it adds to \<^verbatim>\<open>total\<close>. (An epoch that returns has met at least one
  batch: on none it raises, see C9.)
\<close>

theorem C4_accuracy_in_unit_interval:
  "(fst (train L items w) = Inr (l, a) \<longrightarrow> 0 \<le> a \<and> a \<le> 1)
 \<and> (fst (val L items w) = Inr (l, a) \<longrightarrow> 0 \<le> a \<and> a \<le> 1)
 \<and> (fst (train_batch L b st w) = Inr st' \<longrightarrow>
       running_corrects st \<le> running_corrects st'
     \<and> real_of_int (running_corrects st' - running_corrects st) \<le> total_count st' - total_count st)
 \<and> (fst (val_batch L b st w) = Inr st' \<longrightarrow>
       running_corrects st \<le> running_corrects st'
     \<and> real_of_int (running_corrects st' - running_corrects st) \<le> total_count st' - total_count st)"
proof -
  have tr: "0 \<le> a \<and> a \<le> 1" if "fst (train L items w) = Inr (l, a)"
  proof -
    from that obtain s where
      s: "fst (train_loop L items stats0 (train_entry w)) = Inr s" and
      nz: "total_count s \<noteq> 0" and a: "a = real_of_int (running_corrects s) / total_count s"
      by (auto simp: train_fst epoch_result_eq split: sum.splits if_splits)
    from train_loop_corrects [OF s] have "0 \<le> running_corrects s"
      "real_of_int (running_corrects s) \<le> total_count s"
      by (simp_all add: stats0_def)
    with nz a show ?thesis
      using accuracy_bounds by blast
  qed
  have va: "0 \<le> a \<and> a \<le> 1" if "fst (val L items w) = Inr (l, a)"
  proof -
    from that obtain s where
      s: "fst (val_loop L items stats0 (val_entry w)) = Inr s" and
      nz: "total_count s \<noteq> 0" and a: "a = real_of_int (running_corrects s) / total_count s"
      by (auto simp: val_fst epoch_result_eq split: sum.splits if_splits)
    from val_loop_corrects [OF s] have "0 \<le> running_corrects s"
      "real_of_int (running_corrects s) \<le> total_count s"
      by (simp_all add: stats0_def)
    with nz a show ?thesis
      using accuracy_bounds by blast
  qed
  have tb: "running_corrects st \<le> running_corrects st'
     \<and> real_of_int (running_corrects st' - running_corrects st) \<le> total_count st' - total_count st"
    if "fst (train_batch L b st w) = Inr st'"
    using train_loop_corrects [of L "[Inr b]" st w st'] that
    by (simp add: fst_bnd ret_def)
  have vb: "running_corrects st \<le> running_corrects st'
     \<and> real_of_int (running_corrects st' - running_corrects st) \<le> total_count st' - total_count st"
    if "fst (val_batch L b st w) = Inr st'"
    using val_loop_corrects [of L "[Inr b]" st w st'] that
    by (simp add: fst_bnd ret_def)
  from tr va tb vb show ?thesis by blast
qed



theorem C4_accuracy_in_unit_interval_witness:
  "fst (train toy_lib [Inr ([1, 2], [0, 1]), Inr ([3], [1])] world0) = Inr (Number 1, 2 / 3)
 \<and> fst (val toy_lib [Inr ([1, 2], [0, 1]), Inr ([3], [1])] world0) = Inr (Number 1, 2 / 3)
 \<and> (0::real) \<le> 2 / 3 \<and> (2 / 3 :: real) \<le> 1
 \<and> fst (train_batch toy_lib ([1, 2], [0, 1]) stats0 world0)
     = Inr \<lparr>running_loss = Number 2, running_corrects = 1, total_count = 2\<rparr>
 \<and> fst (val_batch toy_lib ([1, 2], [0, 1]) stats0 world0)
     = Inr \<lparr>running_loss = Number 2, running_corrects = 1, total_count = 2\<rparr>
 \<and> running_corrects stats0 \<le> 1
 \<and> real_of_int (1 - running_corrects stats0) \<le> 2 - total_count stats0"
proof -
  have h1: "fst (train toy_lib [Inr ([1, 2], [0, 1]), Inr ([3], [1])] world0) = Inr (Number 1, 2 / 3)"
    by (simp add: toy_defs)
  have h2: "fst (val toy_lib [Inr ([1, 2], [0, 1]), Inr ([3], [1])] world0) = Inr (Number 1, 2 / 3)"
    by (simp add: toy_defs)
  have h3: "fst (train_batch toy_lib ([1, 2], [0, 1]) stats0 world0)
     = Inr \<lparr>running_loss = Number 2, running_corrects = 1, total_count = 2\<rparr>"
    by (simp add: toy_defs)
  have h4: "fst (val_batch toy_lib ([1, 2], [0, 1]) stats0 world0)
     = Inr \<lparr>running_loss = Number 2, running_corrects = 1, total_count = 2\<rparr>"
    by (simp add: toy_defs)
  from C4_accuracy_in_unit_interval [of toy_lib "[Inr ([1, 2], [0, 1]), Inr ([3], [1])]" world0
      "Number 1" "2 / 3" "([1, 2], [0, 1])" stats0
      "\<lparr>running_loss = Number 2, running_corrects = 1, total_count = 2\<rparr>"] h1 h3
  have "(0::real) \<le> 2 / 3 \<and> (2 / 3 :: real) \<le> 1
      \<and> running_corrects stats0 \<le> 1
      \<and> real_of_int (1 - running_corrects stats0) \<le> 2 - total_count stats0"
    by simp
  with h1 h2 h3 h4 show ?thesis by simp
qed


subsection \<open>Validation leaves the parameters alone\<close>

text \<open>
  Claim C3. Whatever the batches and whether it returns or raises, \<^verbatim>\<open>val()\<close> leaves every
  parameter, every gradient and the optimizer's momentum buffers as they were; among its
  library calls there is no \<^verbatim>\<open>zero_grad\<close>, no \<^verbatim>\<open>backward\<close> and no optimizer step, and
  every forward pass runs in evaluation mode with gradient recording disabled.
\<close>

theorem C3_validator_frame:
  "params (snd (val L items w)) = params w
 \<and> grads (snd (val L items w)) = grads w
 \<and> momentum_buffer (snd (val L items w)) = momentum_buffer w
 \<and> (\<exists>evs. calls (snd (val L items w)) = calls w @ evs
          \<and> EvZeroGrad \<notin> set evs \<and> EvBackward \<notin> set evs \<and> EvOptStep \<notin> set evs
          \<and> (\<forall>tr ge. EvForward tr ge \<in> set evs \<longrightarrow> \<not> tr \<and> \<not> ge))"
proof -
  let ?w1 = "val_entry w"
  let ?w2 = "snd (val_loop L items stats0 ?w1)"
  have fr: "params ?w2 = params w" "grads ?w2 = grads w" "momentum_buffer ?w2 = momentum_buffer w"
    using val_loop_frame [of L items stats0 ?w1] by (simp_all add: val_entry_def)
  obtain evs where evs: "calls ?w2 = calls ?w1 @ evs"
    "set evs \<subseteq> set (val_batch_calls False False)"
    using val_loop_calls [of L items stats0 ?w1] by (auto simp: val_entry_def)
  let ?all = "[EvModelEval, EvNoGradEnter] @ evs @ [EvNoGradExit]"
  have c: "calls (snd (val L items w)) = calls w @ ?all"
    using evs(1) by (simp add: val_snd val_exit_def val_entry_def)
  have "EvZeroGrad \<notin> set ?all \<and> EvBackward \<notin> set ?all \<and> EvOptStep \<notin> set ?all
          \<and> (\<forall>tr ge. EvForward tr ge \<in> set ?all \<longrightarrow> \<not> tr \<and> \<not> ge)"
    using evs(2) by (auto simp: val_batch_calls_def)
  with c fr show ?thesis
    by (simp add: val_snd val_exit_def) blast
qed


theorem C3_validator_frame_witness:
  "params (snd (val toy_lib [Inr ([1, 2], [0, 1])] world0)) = params world0
 \<and> grads (snd (val toy_lib [Inr ([1, 2], [0, 1])] world0)) = grads world0
 \<and> momentum_buffer (snd (val toy_lib [Inr ([1, 2], [0, 1])] world0)) = momentum_buffer world0
 \<and> calls (snd (val toy_lib [Inr ([1, 2], [0, 1])] world0)) =
     [EvModelEval, EvNoGradEnter, EvCuda, EvCuda, EvForward False False, EvCriterion,
      EvArgMax, EvCountMatches, EvNoGradExit]
 \<and> fst (val toy_lib [Inr ([1, 2], [0, 1])] world0) = Inr (Number 1, 1 / 2)"
proof -
  have c: "calls (snd (val toy_lib [Inr ([1, 2], [0, 1])] world0)) =
     [EvModelEval, EvNoGradEnter, EvCuda, EvCuda, EvForward False False, EvCriterion,
      EvArgMax, EvCountMatches, EvNoGradExit]"
    by (simp add: toy_defs)
  have r: "fst (val toy_lib [Inr ([1, 2], [0, 1])] world0) = Inr (Number 1, 1 / 2)"
    by (simp add: toy_defs)
  from C3_validator_frame [of toy_lib "[Inr ([1, 2], [0, 1])]" world0] c r
  show ?thesis by simp
qed

subsection \<open>Division by the sample count\<close>

text \<open>The loops raise no ZeroDivisionError: only the division after them does.\<close>

lemma train_batch_no_zero_div: "fst (train_batch L b st w) \<noteq> Inl ZeroDivisionError"
  by (cases b)
    (simp add: train_batch_def prim_defs Let_def
      split: option.splits sum.splits if_splits prod.splits)

lemma val_batch_no_zero_div: "fst (val_batch L b st w) \<noteq> Inl ZeroDivisionError"
  by (cases b)
    (simp add: val_batch_def prim_defs Let_def
      split: option.splits sum.splits if_splits prod.splits)

lemma train_loop_no_zero_div: "fst (train_loop L items st w) \<noteq> Inl ZeroDivisionError"
proof (induction items arbitrary: st w)
  case Nil
  show ?case by (simp add: ret_def)
next
  case (Cons item items)
  show ?case
  proof (cases item)
    case (Inl e)
    then show ?thesis by (simp add: raise_def)
  next
    case (Inr b)
    with Cons.IH train_batch_no_zero_div [of L b st w] show ?thesis
      by (auto simp: fst_bnd split: sum.splits)
  qed
qed

lemma val_loop_no_zero_div: "fst (val_loop L items st w) \<noteq> Inl ZeroDivisionError"
proof (induction items arbitrary: st w)
  case Nil
  show ?case by (simp add: ret_def)
next
  case (Cons item items)
  show ?case
  proof (cases item)
    case (Inl e)
    then show ?thesis by (simp add: raise_def)
  next
    case (Inr b)
    with Cons.IH val_batch_no_zero_div [of L b st w] show ?thesis
      by (auto simp: fst_bnd split: sum.splits)
  qed
qed

text \<open>A loop that completes has met batches only.\<close>

lemma train_loop_Inr_items:
  "fst (train_loop L items st w) = Inr st' \<Longrightarrow> Inl e \<notin> set items"
proof (induction items arbitrary: st w)
  case Nil
  show ?case by simp
next
  case (Cons item items)
  then show ?case
    by (cases item) (auto simp: raise_def dest!: fst_bnd_InrD)
qed

lemma val_loop_Inr_items:
  "fst (val_loop L items st w) = Inr st' \<Longrightarrow> Inl e \<notin> set items"
proof (induction items arbitrary: st w)
  case Nil
  show ?case by simp
next
  case (Cons item items)
  then show ?case
    by (cases item) (auto simp: raise_def dest!: fst_bnd_InrD)
qed

lemma samples_seen_pos:
  assumes "items \<noteq> []" and "\<And>b. Inr b \<in> set items \<Longrightarrow> snd b \<noteq> []"
    and "\<And>e. Inl e \<notin> set items"
  shows "0 < samples_seen items"
proof -
  from assms(1) obtain item rest where items: "items = item # rest"
    by (cases items) auto
  with assms(3) obtain b where b: "item = Inr b"
    by (cases item) auto
  with items assms(2) have "snd b \<noteq> []" by simp
  with items b show ?thesis
    by (simp add: samples_seen_def)
qed

text \<open>The loader never yields an empty batch, and yields none only without samples.\<close>

lemma chunks_nonempty: "c \<in> set (chunks n xs) \<Longrightarrow> c \<noteq> []"
proof (induction n xs rule: chunks.induct)
  case (1 n xs)
  show ?case
  proof (cases "n = 0 \<or> xs = []")
    case True
    with "1.prems" show ?thesis by (subst (asm) chunks.simps) simp
  next
    case False
    with "1.prems" have "c = take n xs \<or> c \<in> set (chunks n (drop n xs))"
      by (subst (asm) chunks.simps) simp
    with False "1.IH" show ?thesis by auto
  qed
qed

lemma DataLoader_batches:
  assumes "Inr b \<in> set (DataLoader samples)"
  shows "snd b \<noteq> [] \<and> length (fst b) = length (snd b)"
proof -
  from assms obtain c where c: "c \<in> set (chunks (nat batch_size) samples)" "b = collate c"
    by (auto simp: DataLoader_def)
  from c(1) have "c \<noteq> []" by (rule chunks_nonempty)
  with c(2) show ?thesis by (simp add: collate_def)
qed

lemma DataLoader_empty:
  "(DataLoader samples = []) = (samples = [])"
  unfolding DataLoader_def by (subst chunks.simps) (simp add: batch_size_def)

text \<open>
  Claim C9, as amended. On an empty sequence of batches the sample count stays zero and
  \<^verbatim>\<open>train()\<close> and \<^verbatim>\<open>val()\<close> raise ZeroDivisionError instead of returning. When the loop
  completes, the count is the number of samples in the batches: the function raises
  ZeroDivisionError exactly when that number is zero, also on a sequence that is not
  empty, and otherwise the count is positive and the function returns the two
  quotients. In particular it does not raise ZeroDivisionError on a sequence that is not
  empty of batches that hold at least one sample each, as the batches of the notebook's
  loaders do (lemma \<open>DataLoader_batches\<close>).
\<close>

theorem C9_division_by_zero:
  "fst (train L [] w) = Inl ZeroDivisionError
 \<and> fst (val L [] w) = Inl ZeroDivisionError
 \<and> fst (train_loop L [] stats0 (train_entry w)) = Inr stats0
 \<and> fst (val_loop L [] stats0 (val_entry w)) = Inr stats0
 \<and> total_count stats0 = 0
 \<and> (fst (train_loop L items stats0 (train_entry w)) = Inr s \<longrightarrow>
       total_count s = real (samples_seen items)
     \<and> (samples_seen items = 0 \<longrightarrow> fst (train L items w) = Inl ZeroDivisionError)
     \<and> (0 < samples_seen items \<longrightarrow>
           0 < total_count s
         \<and> fst (train L items w) =
             Inr (pf_over (running_loss s) (total_count s),
                  real_of_int (running_corrects s) / total_count s)))
 \<and> (fst (val_loop L items stats0 (val_entry w)) = Inr s \<longrightarrow>
       total_count s = real (samples_seen items)
     \<and> (samples_seen items = 0 \<longrightarrow> fst (val L items w) = Inl ZeroDivisionError)
     \<and> (0 < samples_seen items \<longrightarrow>
           0 < total_count s
         \<and> fst (val L items w) =
             Inr (pf_over (running_loss s) (total_count s),
                  real_of_int (running_corrects s) / total_count s)))
 \<and> (fst (train L items w) = Inl ZeroDivisionError \<longleftrightarrow>
       (\<exists>s'. fst (train_loop L items stats0 (train_entry w)) = Inr s') \<and> samples_seen items = 0)
 \<and> (fst (val L items w) = Inl ZeroDivisionError \<longleftrightarrow>
       (\<exists>s'. fst (val_loop L items stats0 (val_entry w)) = Inr s') \<and> samples_seen items = 0)
 \<and> (items \<noteq> [] \<and> (\<forall>b. Inr b \<in> set items \<longrightarrow> snd b \<noteq> []) \<longrightarrow>
       fst (train L items w) \<noteq> Inl ZeroDivisionError
     \<and> fst (val L items w) \<noteq> Inl ZeroDivisionError)"
proof -
  have e: "fst (train L [] w) = Inl ZeroDivisionError" "fst (val L [] w) = Inl ZeroDivisionError"
    "fst (train_loop L [] stats0 (train_entry w)) = Inr stats0"
    "fst (val_loop L [] stats0 (val_entry w)) = Inr stats0" "total_count stats0 = 0"
    by (simp_all add: train_fst val_fst epoch_result_eq ret_def stats0_def)
  have ttot: "total_count s' = real (samples_seen items)"
    if "fst (train_loop L items stats0 (train_entry w)) = Inr s'" for s'
    using train_loop_Inr [OF that] by (simp add: stats0_def)
  have vtot: "total_count s' = real (samples_seen items)"
    if "fst (val_loop L items stats0 (val_entry w)) = Inr s'" for s'
    using val_loop_Inr [OF that] by (simp add: stats0_def)
  have t: "total_count s = real (samples_seen items)
     \<and> (samples_seen items = 0 \<longrightarrow> fst (train L items w) = Inl ZeroDivisionError)
     \<and> (0 < samples_seen items \<longrightarrow>
           0 < total_count s
         \<and> fst (train L items w) =
             Inr (pf_over (running_loss s) (total_count s),
                  real_of_int (running_corrects s) / total_count s))"
    if "fst (train_loop L items stats0 (train_entry w)) = Inr s"
    using that ttot [OF that] by (simp add: train_fst epoch_result_eq)
  have v: "total_count s = real (samples_seen items)
     \<and> (samples_seen items = 0 \<longrightarrow> fst (val L items w) = Inl ZeroDivisionError)
     \<and> (0 < samples_seen items \<longrightarrow>
           0 < total_count s
         \<and> fst (val L items w) =
             Inr (pf_over (running_loss s) (total_count s),
                  real_of_int (running_corrects s) / total_count s))"
    if "fst (val_loop L items stats0 (val_entry w)) = Inr s"
    using that vtot [OF that] by (simp add: val_fst epoch_result_eq)
  have tz: "fst (train L items w) = Inl ZeroDivisionError \<longleftrightarrow>
       (\<exists>s'. fst (train_loop L items stats0 (train_entry w)) = Inr s') \<and> samples_seen items = 0"
    using train_loop_no_zero_div [of L items stats0 "train_entry w"] ttot
    by (auto simp: train_fst epoch_result_eq split: sum.splits)
  have vz: "fst (val L items w) = Inl ZeroDivisionError \<longleftrightarrow>
       (\<exists>s'. fst (val_loop L items stats0 (val_entry w)) = Inr s') \<and> samples_seen items = 0"
    using val_loop_no_zero_div [of L items stats0 "val_entry w"] vtot
    by (auto simp: val_fst epoch_result_eq split: sum.splits)
  have ne: "fst (train L items w) \<noteq> Inl ZeroDivisionError
     \<and> fst (val L items w) \<noteq> Inl ZeroDivisionError"
    if items: "items \<noteq> []" and sizes: "\<forall>b. Inr b \<in> set items \<longrightarrow> snd b \<noteq> []"
  proof -
    have "0 < samples_seen items"
      if "fst (train_loop L items stats0 (train_entry w)) = Inr s'" for s'
    proof -
      from that have "\<And>e. Inl e \<notin> set items" by (rule train_loop_Inr_items)
      with items sizes show ?thesis by (intro samples_seen_pos) auto
    qed
    moreover have "0 < samples_seen items"
      if "fst (val_loop L items stats0 (val_entry w)) = Inr s'" for s'
    proof -
      from that have "\<And>e. Inl e \<notin> set items" by (rule val_loop_Inr_items)
      with items sizes show ?thesis by (intro samples_seen_pos) auto
    qed
    ultimately show ?thesis
      using tz vz by auto
  qed
  from e t v tz vz ne show ?thesis by blast
qed

theorem C9_division_by_zero_witness:
  "fst (train_loop toy_lib [Inr ([1, 2], [0, 1]), Inr ([], [])] stats0 (train_entry world0))
      = Inr \<lparr>running_loss = Number 2, running_corrects = 1, total_count = 2\<rparr>
 \<and> fst (val_loop toy_lib [Inr ([1, 2], [0, 1]), Inr ([], [])] stats0 (val_entry world0))
      = Inr \<lparr>running_loss = Number 2, running_corrects = 1, total_count = 2\<rparr>
 \<and> samples_seen [Inr ([1, 2], [0, 1]), Inr ([], []) :: unit + real batch] = 2
 \<and> fst (train toy_lib [Inr ([1, 2], [0, 1]), Inr ([], [])] world0) = Inr (Number 1, 1 / 2)
 \<and> fst (val toy_lib [Inr ([1, 2], [0, 1]), Inr ([], [])] world0) = Inr (Number 1, 1 / 2)
 \<and> fst (train toy_lib [] world0) = Inl ZeroDivisionError
 \<and> fst (val toy_lib [] world0) = Inl ZeroDivisionError
 \<and> fst (train toy_lib (DataLoader []) world0) = Inl ZeroDivisionError"
proof -
  let ?items = "[Inr ([1, 2], [0, 1]), Inr ([], [])] :: (unit + real batch) list"
  let ?s = "\<lparr>running_loss = Number 2, running_corrects = 1, total_count = 2\<rparr>"
  note c9 = C9_division_by_zero [of toy_lib world0 ?items ?s]
  have n: "samples_seen ?items = 2"
    by (simp add: samples_seen_def)
  have h1: "fst (train_loop toy_lib ?items stats0 (train_entry world0)) = Inr ?s"
    by (simp add: toy_defs)
  have h2: "fst (val_loop toy_lib ?items stats0 (val_entry world0)) = Inr ?s"
    by (simp add: toy_defs)
  have em: "(DataLoader [] :: (unit + real batch) list) = []"
    by (simp add: DataLoader_empty)
  from c9 n h1 h2
  have "fst (train toy_lib ?items world0) = Inr (Number 1, 1 / 2)
      \<and> fst (val toy_lib ?items world0) = Inr (Number 1, 1 / 2)
      \<and> fst (train toy_lib [] world0) = Inl ZeroDivisionError
      \<and> fst (val toy_lib [] world0) = Inl ZeroDivisionError"
    by simp
  with n h1 h2 em show ?thesis by simp
qed

text \<open>
  A sequence that is not empty, of one batch without samples: the count stays zero and
  both functions raise ZeroDivisionError, whatever the loss of the empty batch is.
\<close>

theorem C9_empty_batch_counterexample:
  "fst (train toy_lib [Inr ([], [])] world0) = Inl ZeroDivisionError
 \<and> fst (val toy_lib [Inr ([], [])] world0) = Inl ZeroDivisionError
 \<and> fst (train nan_lib [Inr ([], [])] world0) = Inl ZeroDivisionError
 \<and> [Inr ([], []) :: unit + real batch] \<noteq> []"
  by (simp add: toy_defs nan_lib_def)


subsection \<open>The training batch\<close>

text \<open>\<^verbatim>\<open>max(1)[1]\<close> picks, in a row that has entries, the first position of its largest.\<close>

lemma argmax_from_spec:
  assumes "bi < length pre" and "pre ! bi = best" and "\<forall>v \<in> set pre. v \<le> best"
    and "\<forall>j < bi. pre ! j < best" and "i = length pre"
  shows "argmax_from vs i best bi < length (pre @ vs)
       \<and> (\<forall>v \<in> set (pre @ vs). v \<le> (pre @ vs) ! argmax_from vs i best bi)
       \<and> (\<forall>j < argmax_from vs i best bi. (pre @ vs) ! j < (pre @ vs) ! argmax_from vs i best bi)"
  using assms
proof (induction vs arbitrary: pre i best bi)
  case Nil
  then show ?case by auto
next
  case (Cons v vs)
  show ?case
  proof (cases "best < v")
    case True
    have "argmax_from vs (Suc i) v i < length ((pre @ [v]) @ vs)
       \<and> (\<forall>u \<in> set ((pre @ [v]) @ vs). u \<le> ((pre @ [v]) @ vs) ! argmax_from vs (Suc i) v i)
       \<and> (\<forall>j < argmax_from vs (Suc i) v i.
            ((pre @ [v]) @ vs) ! j < ((pre @ [v]) @ vs) ! argmax_from vs (Suc i) v i)"
    proof (rule Cons.IH)
      show "i < length (pre @ [v])" using Cons.prems by simp
      show "(pre @ [v]) ! i = v" using Cons.prems by simp
      show "\<forall>u \<in> set (pre @ [v]). u \<le> v" using Cons.prems True by auto
      show "\<forall>j < i. (pre @ [v]) ! j < v"
      proof (intro allI impI)
        fix j assume "j < i"
        with Cons.prems have "pre ! j \<in> set pre" "(pre @ [v]) ! j = pre ! j"
          by (simp_all add: nth_append)
        with Cons.prems True show "(pre @ [v]) ! j < v" by force
      qed
      show "Suc i = length (pre @ [v])" using Cons.prems by simp
    qed
    with True show ?thesis by simp
  next
    case False
    have "argmax_from vs (Suc i) best bi < length ((pre @ [v]) @ vs)
       \<and> (\<forall>u \<in> set ((pre @ [v]) @ vs). u \<le> ((pre @ [v]) @ vs) ! argmax_from vs (Suc i) best bi)
       \<and> (\<forall>j < argmax_from vs (Suc i) best bi.
            ((pre @ [v]) @ vs) ! j < ((pre @ [v]) @ vs) ! argmax_from vs (Suc i) best bi)"
    proof (rule Cons.IH)
      show "bi < length (pre @ [v])" using Cons.prems by simp
      show "(pre @ [v]) ! bi = best" using Cons.prems by (simp add: nth_append)
      show "\<forall>u \<in> set (pre @ [v]). u \<le> best" using Cons.prems False by auto
      show "\<forall>j < bi. (pre @ [v]) ! j < best" using Cons.prems by (simp add: nth_append)
      show "Suc i = length (pre @ [v])" using Cons.prems by simp
    qed
    with False show ?thesis by simp
  qed
qed

lemma row_argmax_spec:
  assumes "row \<noteq> []"
  shows "row_argmax row < length row
       \<and> (\<forall>v \<in> set row. v \<le> row ! row_argmax row)
       \<and> (\<forall>j < row_argmax row. row ! j < row ! row_argmax row)"
proof -
  from assms obtain v vs where row: "row = v # vs" by (cases row) auto
  from argmax_from_spec [of 0 "[v]" v 1 vs] show ?thesis
    by (simp add: row row_argmax_def)
qed

lemma count_matches_zip:
  "length (filter ((\<lambda>b. b) \<circ> (\<lambda>(x, y). x = y)) (zip (map (\<lambda>row. int (row_argmax row)) rows) labels))
     = length (filter (\<lambda>(row, v). int (row_argmax row) = v) (zip rows labels))"
proof (induction rows arbitrary: labels)
  case Nil
  show ?case by simp
next
  case (Cons row rows)
  then show ?case by (cases labels) simp_all
qed

lemma train_batch_stats:
  assumes "fst (train_batch L (data, labels) st w) = Inr st'"
  shows "\<exists>output b' loss.
           forward L (training w) (params w) (buffers w) data = Inr (output, b')
         \<and> cross_entropy L output labels = Inr loss
         \<and> length output = length labels
         \<and> st' = \<lparr>running_loss = pf_add (running_loss st) (pf_times loss (length data)),
                  running_corrects = running_corrects st
                    + int (length (filter (\<lambda>(row, v). int (row_argmax row) = v) (zip output labels))),
                  total_count = total_count st + real (length labels)\<rparr>"
  using assms
  by (clarsimp simp: train_batch_def prim_defs Let_def tensor_eq_same_length count_matches_zip
      split: option.splits sum.splits if_splits prod.splits)

lemma train_calls:
  assumes "fst (train L items w) = Inr r"
  shows "calls (snd (train L items w)) =
           calls w @ EvModelTrain # concat (replicate (length items) (train_batch_calls True (grad_enabled w)))"
proof -
  from assms obtain s where s: "fst (train_loop L items stats0 (train_entry w)) = Inr s"
    by (auto simp: train_fst split: sum.splits)
  from train_loop_Inr [OF s] show ?thesis
    by (simp add: train_snd train_entry_def)
qed

text \<open>
  Claim C5, as amended. For every batch \<^verbatim>\<open>train()\<close> makes its library calls in this
  order: \<^verbatim>\<open>zero_grad\<close>, the two transfers to the device, the forward pass, the loss, the
  arg-max over the classes, \<^verbatim>\<open>backward\<close>, one optimizer step, the count of the
  predictions that equal their label. If a call raises, the calls made are an initial
  part of that order; they are the whole of it exactly when the batch completes. A
  batch that completes adds to the running statistics the loss times the number of
  inputs, the number of rows of the output whose arg-max (lemma \<open>row_argmax_spec\<close>) is
  the label, and the number of labels. An epoch that returns has called
  \<^verbatim>\<open>model.train()\<close> and then made these calls once per batch.
\<close>

theorem C5_train_batch_order:
  "(\<exists>evs. calls (snd (train_batch L b st w)) = calls w @ evs \<and> evs \<noteq> []
        \<and> prefix evs (train_batch_calls (training w) (grad_enabled w))
        \<and> (evs = train_batch_calls (training w) (grad_enabled w)
             \<longleftrightarrow> (\<exists>st'. fst (train_batch L b st w) = Inr st')))
 \<and> (fst (train_batch L (data, labels) st w) = Inr st' \<longrightarrow>
      (\<exists>output b' loss.
           forward L (training w) (params w) (buffers w) data = Inr (output, b')
         \<and> cross_entropy L output labels = Inr loss
         \<and> length output = length labels
         \<and> st' = \<lparr>running_loss = pf_add (running_loss st) (pf_times loss (length data)),
                  running_corrects = running_corrects st
                    + int (length (filter (\<lambda>(row, v). int (row_argmax row) = v) (zip output labels))),
                  total_count = total_count st + real (length labels)\<rparr>))
 \<and> (fst (train L items w) = Inr r \<longrightarrow>
      calls (snd (train L items w)) =
        calls w @ EvModelTrain # concat (replicate (length items) (train_batch_calls True (grad_enabled w))))"
  using train_batch_calls_prefix [of L b st w] train_batch_stats [of L data labels st w st']
    train_calls [of L items w r]
  by blast

theorem C5_train_batch_order_witness:
  "calls (snd (train_batch toy_lib ([1, 2], [0, 1]) stats0 world0)) =
     [EvZeroGrad, EvCuda, EvCuda, EvForward False True, EvCriterion, EvArgMax,
      EvBackward, EvOptStep, EvCountMatches]
 \<and> fst (train_batch toy_lib ([1, 2], [0, 1]) stats0 world0)
     = Inr \<lparr>running_loss = Number 2, running_corrects = 1, total_count = 2\<rparr>
 \<and> fst (train toy_lib [Inr ([1, 2], [0, 1])] world0) = Inr (Number 1, 1 / 2)
 \<and> calls (snd (train toy_lib [Inr ([1, 2], [0, 1])] world0)) =
     [EvModelTrain, EvZeroGrad, EvCuda, EvCuda, EvForward True True, EvCriterion, EvArgMax,
      EvBackward, EvOptStep, EvCountMatches]
 \<and> calls (snd (train_batch no_device_lib ([1, 2], [0, 1]) stats0 world0)) = [EvZeroGrad, EvCuda]"
proof -
  have h1: "fst (train_batch toy_lib ([1, 2], [0, 1]) stats0 world0)
     = Inr \<lparr>running_loss = Number 2, running_corrects = 1, total_count = 2\<rparr>"
    by (simp add: toy_defs)
  have h2: "fst (train toy_lib [Inr ([1, 2], [0, 1])] world0) = Inr (Number 1, 1 / 2)"
    by (simp add: toy_defs)
  have h3: "calls (snd (train_batch no_device_lib ([1, 2], [0, 1]) stats0 world0)) = [EvZeroGrad, EvCuda]"
    by (simp add: toy_defs no_device_lib_def)
  from C5_train_batch_order [of toy_lib "([1, 2], [0, 1])" stats0 world0 "[1, 2]" "[0, 1]"
      "\<lparr>running_loss = Number 2, running_corrects = 1, total_count = 2\<rparr>"
      "[Inr ([1, 2], [0, 1])]" "(Number 1, 1 / 2)"] h1 h2
  have "calls (snd (train_batch toy_lib ([1, 2], [0, 1]) stats0 world0)) =
     [EvZeroGrad, EvCuda, EvCuda, EvForward False True, EvCriterion, EvArgMax,
      EvBackward, EvOptStep, EvCountMatches]
    \<and> calls (snd (train toy_lib [Inr ([1, 2], [0, 1])] world0)) =
     [EvModelTrain, EvZeroGrad, EvCuda, EvCuda, EvForward True True, EvCriterion, EvArgMax,
      EvBackward, EvOptStep, EvCountMatches]"
    by (auto simp: train_batch_calls_def world0_def)
  with h1 h2 h3 show ?thesis by simp
qed

text \<open>
  The order of the specification, with the arg-max after the optimizer step, is not the
  order of the calls: the notebook takes the arg-max before \<^verbatim>\<open>loss.backward()\<close>.
\<close>

theorem C5_spec_order_counterexample:
  "fst (train_batch toy_lib ([1, 2], [0, 1]) stats0 world0)
     = Inr \<lparr>running_loss = Number 2, running_corrects = 1, total_count = 2\<rparr>
 \<and> calls (snd (train_batch toy_lib ([1, 2], [0, 1]) stats0 world0)) =
     [EvZeroGrad, EvCuda, EvCuda, EvForward False True, EvCriterion, EvArgMax,
      EvBackward, EvOptStep, EvCountMatches]
 \<and> calls (snd (train_batch toy_lib ([1, 2], [0, 1]) stats0 world0))
     \<noteq> spec_train_batch_calls False True"
  by (simp add: toy_defs spec_train_batch_calls_def)

subsection \<open>The optimizer step\<close>






subsection \<open>The report\<close>

lemma py_max_foldl:
  "foldl (\<lambda>m v. if m < v then v else m) x xs = Max (set (x # xs))"
proof (induction xs arbitrary: x)
  case Nil
  show ?case by simp
next
  case (Cons y ys)
  have "foldl (\<lambda>m v. if m < v then v else m) x (y # ys)
          = foldl (\<lambda>m v. if m < v then v else m) (max x y) ys"
    by (auto simp: max_def)
  also have "\<dots> = Max (set (max x y # ys))"
    by (rule Cons.IH)
  also have "\<dots> = Max (set (x # y # ys))"
    by (cases "set ys = {}") (simp_all add: max.assoc)
  finally show ?case .
qed

lemma print_best_fst:
  "fst (print_best w) =
     (case val_accuracy w of [] \<Rightarrow> Inl ValueError | x # xs \<Rightarrow> Inr (Max (set (x # xs))))"
  by (simp add: print_best_def py_max_def bnd_def raise_def ret_def emit_def py_max_foldl
      split: list.splits)

lemma notebook_fst:
  "fst (notebook L n TR VA w) =
     (case fst (training_loop L n TR VA w) of
        Inl e \<Rightarrow> Inl e
      | Inr u \<Rightarrow> fst (print_best (snd (training_loop L n TR VA w))))"
  by (simp add: notebook_def fst_bnd)

text \<open>
  Claim C2. The last cell reports the largest element of the validation-accuracy list:
  whenever the list is not empty, and so whenever the notebook as a whole returns a
  value, that value is the maximum of the list the loop has left; on the list
  0.5, 0.72, 0.61 it is 0.72. (The loop only ever appends to the list, see C6.)
\<close>

theorem C2_best_validation_accuracy:
  "(val_accuracy w \<noteq> [] \<longrightarrow> fst (print_best w) = Inr (Max (set (val_accuracy w))))
 \<and> (val_accuracy w = [5 / 10, 72 / 100, 61 / 100] \<longrightarrow> fst (print_best w) = Inr (72 / 100))
 \<and> (fst (notebook L n TR VA w) = Inr v \<longrightarrow>
       val_accuracy (snd (training_loop L n TR VA w)) \<noteq> []
     \<and> v = Max (set (val_accuracy (snd (training_loop L n TR VA w)))))"
proof -
  have a: "fst (print_best w) = Inr (Max (set (val_accuracy w)))" if "val_accuracy w \<noteq> []"
    using that by (cases "val_accuracy w") (simp_all add: print_best_fst)
  have b: "fst (print_best w) = Inr (72 / 100)" if "val_accuracy w = [5 / 10, 72 / 100, 61 / 100]"
    using that by (simp add: print_best_fst)
  have c: "val_accuracy (snd (training_loop L n TR VA w)) \<noteq> []
     \<and> v = Max (set (val_accuracy (snd (training_loop L n TR VA w))))"
    if "fst (notebook L n TR VA w) = Inr v"
    using that
    by (auto simp: notebook_fst print_best_fst split: sum.splits list.splits)
  from a b c show ?thesis by blast
qed

theorem C2_best_validation_accuracy_witness:
  "val_accuracy (world0\<lparr>val_accuracy := [5 / 10, 72 / 100, 61 / 100]\<rparr>) \<noteq> []
 \<and> fst (print_best (world0\<lparr>val_accuracy := [5 / 10, 72 / 100, 61 / 100]\<rparr>)) = Inr (72 / 100)
 \<and> Max (set [5 / 10, 72 / 100, 61 / 100 :: real]) = 72 / 100"
proof -
  let ?w = "world0\<lparr>val_accuracy := [5 / 10, 72 / 100, 61 / 100]\<rparr>"
  note c2 = C2_best_validation_accuracy [of ?w toy_lib 0 "\<lambda>_. []" "\<lambda>_. []" 0]
  have h: "val_accuracy ?w = [5 / 10, 72 / 100, 61 / 100]" by simp
  have ne: "val_accuracy ?w \<noteq> []" by simp
  from c2 h have r1: "fst (print_best ?w) = Inr (72 / 100)"
    by blast
  from c2 ne have r2: "fst (print_best ?w) = Inr (Max (set (val_accuracy ?w)))"
    by blast
  from r1 r2 have "Max (set (val_accuracy ?w)) = 72 / 100"
    by simp
  with h have "Max (set [5 / 10, 72 / 100, 61 / 100 :: real]) = 72 / 100"
    by simp
  with ne r1 show ?thesis by blast
qed

subsection \<open>The training loop\<close>

text \<open>What \<^verbatim>\<open>train()\<close> and \<^verbatim>\<open>val()\<close> leave of the history, and the markers they add.\<close>

lemma train_frame:
  "train_loss (snd (train L items w)) = train_loss w
 \<and> train_accuracy (snd (train L items w)) = train_accuracy w
 \<and> val_loss (snd (train L items w)) = val_loss w
 \<and> val_accuracy (snd (train L items w)) = val_accuracy w"
  using train_loop_frame [of L items stats0 "train_entry w"]
  by (simp add: train_snd train_entry_def)

lemma val_frame:
  "train_loss (snd (val L items w)) = train_loss w
 \<and> train_accuracy (snd (val L items w)) = train_accuracy w
 \<and> val_loss (snd (val L items w)) = val_loss w
 \<and> val_accuracy (snd (val L items w)) = val_accuracy w"
  using val_loop_frame [of L items stats0 "val_entry w"]
  by (simp add: val_snd val_exit_def val_entry_def)

lemma no_markers_train: "set evs \<subseteq> set (train_batch_calls tr ge) \<Longrightarrow> filter is_marker evs = []"
  by (auto simp: train_batch_calls_def filter_empty_conv)

lemma no_markers_val: "set evs \<subseteq> set (val_batch_calls tr ge) \<Longrightarrow> filter is_marker evs = []"
  by (auto simp: val_batch_calls_def filter_empty_conv)

lemma train_markers:
  "filter is_marker (calls (snd (train L items w))) = filter is_marker (calls w) @ [EvModelTrain]"
proof -
  obtain evs where "calls (snd (train_loop L items stats0 (train_entry w))) = calls (train_entry w) @ evs"
    "set evs \<subseteq> set (train_batch_calls (training (train_entry w)) (grad_enabled (train_entry w)))"
    using train_loop_calls [of L items stats0 "train_entry w"] by blast
  then show ?thesis
    by (simp add: train_snd train_entry_def no_markers_train)
qed

lemma val_markers:
  "filter is_marker (calls (snd (val L items w))) = filter is_marker (calls w) @ [EvModelEval]"
proof -
  obtain evs where "calls (snd (val_loop L items stats0 (val_entry w))) = calls (val_entry w) @ evs"
    "set evs \<subseteq> set (val_batch_calls (training (val_entry w)) (grad_enabled (val_entry w)))"
    using val_loop_calls [of L items stats0 "val_entry w"] by blast
  then show ?thesis
    by (simp add: val_snd val_exit_def val_entry_def no_markers_val)
qed

text \<open>One iteration of the loop of cell 22.\<close>

lemma append_train_eq: "append_train r w = (Inr (), train_appended r w)"
  by (cases r) (simp add: append_train_def train_appended_def)

lemma append_val_eq: "append_val r w = (Inr (), val_appended r w)"
  by (cases r) (simp add: append_val_def val_appended_def)

lemma plot_eq:
  "plot L w =
     (case plot_fault L (train_loss w) (val_loss w) (train_accuracy w) (val_accuracy w) of
        Some e \<Rightarrow> Inl (Fault e) | None \<Rightarrow> Inr (),
      w\<lparr>calls := calls w @ [EvPlot]\<rparr>)"
  by (simp add: plot_def Let_def split: option.splits)

lemma epoch_body_eq:
  "epoch_body L tr va w =
     (case fst (train L tr w) of
        Inl e \<Rightarrow> (Inl e, snd (train L tr w))
      | Inr r \<Rightarrow>
          (case fst (val L va (train_appended r (snd (train L tr w)))) of
             Inl e \<Rightarrow> (Inl e, snd (val L va (train_appended r (snd (train L tr w)))))
           | Inr r' \<Rightarrow>
               plot L (val_appended r' (snd (val L va (train_appended r (snd (train L tr w))))))))"
proof (cases "train L tr w")
  case (Pair a w1)
  show ?thesis
  proof (cases a)
    case (Inl e)
    with Pair show ?thesis by (simp add: epoch_body_def bnd_def)
  next
    case (Inr r)
    show ?thesis
    proof (cases "val L va (train_appended r w1)")
      case (Pair a' w2)
      with \<open>train L tr w = (a, w1)\<close> Inr show ?thesis
        by (cases a') (simp_all add: epoch_body_def bnd_def append_train_eq append_val_eq)
    qed
  qed
qed

lemma epoch_body_Inr:
  assumes "fst (epoch_body L tr va w) = Inr u"
  shows "\<exists>r r'. fst (train L tr w) = Inr r
      \<and> fst (val L va (train_appended r (snd (train L tr w)))) = Inr r'
      \<and> train_loss (snd (epoch_body L tr va w)) = train_loss w @ [fst r]
      \<and> train_accuracy (snd (epoch_body L tr va w)) = train_accuracy w @ [snd r]
      \<and> val_loss (snd (epoch_body L tr va w)) = val_loss w @ [fst r']
      \<and> val_accuracy (snd (epoch_body L tr va w)) = val_accuracy w @ [snd r']
      \<and> filter is_marker (calls (snd (epoch_body L tr va w))) =
          filter is_marker (calls w) @ [EvModelTrain, EvModelEval, EvPlot]"
proof -
  from assms obtain r where r: "fst (train L tr w) = Inr r"
    by (auto simp: epoch_body_eq split: sum.splits)
  let ?w1 = "train_appended r (snd (train L tr w))"
  from assms r obtain r' where r': "fst (val L va ?w1) = Inr r'"
    by (auto simp: epoch_body_eq split: sum.splits)
  let ?w2 = "val_appended r' (snd (val L va ?w1))"
  from r r' have e: "snd (epoch_body L tr va w) = ?w2\<lparr>calls := calls ?w2 @ [EvPlot]\<rparr>"
    by (simp add: epoch_body_eq plot_eq)
  have h1: "train_loss ?w1 = train_loss w @ [fst r]" "train_accuracy ?w1 = train_accuracy w @ [snd r]"
    "val_loss ?w1 = val_loss w" "val_accuracy ?w1 = val_accuracy w"
    "filter is_marker (calls ?w1) = filter is_marker (calls w) @ [EvModelTrain]"
    using train_frame [of L tr w] train_markers [of L tr w]
    by (simp_all add: train_appended_def)
  have h2: "train_loss ?w2 = train_loss ?w1" "train_accuracy ?w2 = train_accuracy ?w1"
    "val_loss ?w2 = val_loss ?w1 @ [fst r']" "val_accuracy ?w2 = val_accuracy ?w1 @ [snd r']"
    "filter is_marker (calls ?w2) = filter is_marker (calls ?w1) @ [EvModelEval]"
    using val_frame [of L va ?w1] val_markers [of L va ?w1]
    by (simp_all add: val_appended_def)
  from r r' h1 h2 show ?thesis
    unfolding e by (intro exI [of _ r] exI [of _ r']) simp
qed

text \<open>The loop over the epoch indices.\<close>

lemma epoch_loop_Cons:
  "epoch_loop L TR VA (i # rest) w =
     bnd (epoch_body L (TR i) (VA i)) (\<lambda>_. epoch_loop L TR VA rest) (epoch_entry i w)"
  by (simp add: bnd_def emit_def epoch_entry_def)

lemma epoch_loop_append:
  "epoch_loop L TR VA (is @ js) = bnd (epoch_loop L TR VA is) (\<lambda>_. epoch_loop L TR VA js)"
proof (induction "is")
  case Nil
  show ?case by (simp add: bnd_ret)
next
  case (Cons i "is")
  then show ?case by (simp add: bnd_assoc)
qed

lemma epoch_loop_Inr:
  "fst (epoch_loop L TR VA is w) = Inr u \<Longrightarrow>
     length (train_loss (snd (epoch_loop L TR VA is w))) = length (train_loss w) + length is
   \<and> length (train_accuracy (snd (epoch_loop L TR VA is w))) = length (train_accuracy w) + length is
   \<and> length (val_loss (snd (epoch_loop L TR VA is w))) = length (val_loss w) + length is
   \<and> length (val_accuracy (snd (epoch_loop L TR VA is w))) = length (val_accuracy w) + length is
   \<and> filter is_marker (calls (snd (epoch_loop L TR VA is w))) =
       filter is_marker (calls w)
         @ concat (map (\<lambda>i. [EvEpoch i, EvModelTrain, EvModelEval, EvPlot]) is)"
proof (induction "is" arbitrary: w)
  case Nil
  then show ?case by (simp add: ret_def)
next
  case (Cons i "is")
  let ?w0 = "epoch_entry i w"
  let ?w1 = "snd (epoch_body L (TR i) (VA i) ?w0)"
  from Cons.prems obtain u1 where
    b: "fst (epoch_body L (TR i) (VA i) ?w0) = Inr u1" and
    l: "fst (epoch_loop L TR VA is ?w1) = Inr u"
    unfolding epoch_loop_Cons by (auto dest: fst_bnd_InrD)
  from b have run: "epoch_loop L TR VA (i # is) w = epoch_loop L TR VA is ?w1"
    unfolding epoch_loop_Cons by (simp add: bnd_Inr)
  from epoch_body_Inr [OF b] have
    "length (train_loss ?w1) = length (train_loss w) + 1"
    "length (train_accuracy ?w1) = length (train_accuracy w) + 1"
    "length (val_loss ?w1) = length (val_loss w) + 1"
    "length (val_accuracy ?w1) = length (val_accuracy w) + 1"
    "filter is_marker (calls ?w1) =
       filter is_marker (calls w) @ [EvEpoch i, EvModelTrain, EvModelEval, EvPlot]"
    by (auto simp: epoch_entry_def)
  with Cons.IH [OF l] show ?case
    unfolding run by simp
qed

lemma training_loop_eq:
  "training_loop L n TR VA w =
     bnd (epoch_loop L TR VA (py_range n)) (\<lambda>_. emit EvClearOutput) (loop_entry w)"
  by (simp add: training_loop_def bnd_def init_history_def loop_entry_def)

lemma training_loop_Inr:
  assumes "fst (training_loop L n TR VA w) = Inr u"
  shows "length (train_loss (snd (training_loop L n TR VA w))) = nat n
   \<and> length (train_accuracy (snd (training_loop L n TR VA w))) = nat n
   \<and> length (val_loss (snd (training_loop L n TR VA w))) = nat n
   \<and> length (val_accuracy (snd (training_loop L n TR VA w))) = nat n
   \<and> filter is_marker (calls (snd (training_loop L n TR VA w))) =
       filter is_marker (calls w)
         @ concat (map (\<lambda>i. [EvEpoch i, EvModelTrain, EvModelEval, EvPlot]) [0..<nat n])
         @ [EvClearOutput]"
proof -
  let ?w0 = "loop_entry w"
  from assms obtain u1 where l: "fst (epoch_loop L TR VA (py_range n) ?w0) = Inr u1"
    unfolding training_loop_eq by (auto dest: fst_bnd_InrD)
  then have s: "snd (training_loop L n TR VA w) =
      (snd (epoch_loop L TR VA (py_range n) ?w0))
        \<lparr>calls := calls (snd (epoch_loop L TR VA (py_range n) ?w0)) @ [EvClearOutput]\<rparr>"
    unfolding training_loop_eq by (simp add: bnd_Inr emit_def)
  from epoch_loop_Inr [OF l] show ?thesis
    unfolding s by (simp add: loop_entry_def py_range_def)
qed

text \<open>The small library on batches of one zero input with label 0: every call succeeds.\<close>

lemma toy_train_zero: "fst (train toy_lib [Inr ([0], [0])] w) = Inr (Number 1, 1)"
  by (simp add: train_def train_batch_def prim_defs tensor_eq_def epoch_result_def stats0_def
      toy_lib_def row_argmax_def Let_def)

lemma toy_val_zero: "fst (val toy_lib [Inr ([0], [0])] w) = Inr (Number 1, 1)"
  by (simp add: val_def val_batch_def prim_defs no_grad_def tensor_eq_def epoch_result_def
      stats0_def toy_lib_def row_argmax_def Let_def)

lemma toy_epoch_body: "fst (epoch_body toy_lib [Inr ([0], [0])] [Inr ([0], [0])] w) = Inr ()"
  by (simp add: epoch_body_eq toy_train_zero toy_val_zero plot_eq) (simp add: toy_lib_def)

lemma toy_epoch_loop:
  "fst (epoch_loop toy_lib (\<lambda>_. [Inr ([0], [0])]) (\<lambda>_. [Inr ([0], [0])]) is w) = Inr ()"
proof (induction "is" arbitrary: w)
  case Nil
  show ?case by (simp add: ret_def)
next
  case (Cons i "is")
  show ?case
    unfolding epoch_loop_Cons
    by (simp add: bnd_Inr [OF toy_epoch_body] Cons.IH)
qed

lemma toy_training_loop:
  "fst (training_loop toy_lib n (\<lambda>_. [Inr ([0], [0])]) (\<lambda>_. [Inr ([0], [0])]) w) = Inr ()"
  unfolding training_loop_eq
  by (simp add: bnd_Inr [OF toy_epoch_loop] emit_def)

text \<open>
  Claim C6. \<^verbatim>\<open>train()\<close> and \<^verbatim>\<open>val()\<close> leave the four history lists as they are, whether
  they return or raise. The loop over a list of epoch indices is the loop over an initial
  part followed by the loop over the rest, so no iteration is entered twice. An iteration
  that completes has called \<^verbatim>\<open>train()\<close>, appended its two results to the training lists,
  then called \<^verbatim>\<open>val()\<close> and appended its two results to the validation lists: one
  element each. A loop of \<open>n\<close> epochs that completes leaves four lists of \<open>n\<close>
  elements, and its iterations are those of the indices 0 to \<open>n - 1\<close> in this order,
  each binding the index, calling \<^verbatim>\<open>train()\<close>, then \<^verbatim>\<open>val()\<close>, then redrawing.
\<close>

theorem C6_training_loop:
  "train_loss (snd (train L items w)) = train_loss w
 \<and> train_accuracy (snd (train L items w)) = train_accuracy w
 \<and> val_loss (snd (train L items w)) = val_loss w
 \<and> val_accuracy (snd (train L items w)) = val_accuracy w
 \<and> train_loss (snd (val L items w)) = train_loss w
 \<and> train_accuracy (snd (val L items w)) = train_accuracy w
 \<and> val_loss (snd (val L items w)) = val_loss w
 \<and> val_accuracy (snd (val L items w)) = val_accuracy w
 \<and> epoch_loop L TR VA (is @ js) = bnd (epoch_loop L TR VA is) (\<lambda>_. epoch_loop L TR VA js)
 \<and> (fst (epoch_body L tr va w) = Inr u \<longrightarrow>
      (\<exists>r r'. fst (train L tr w) = Inr r
         \<and> fst (val L va (train_appended r (snd (train L tr w)))) = Inr r'
         \<and> train_loss (snd (epoch_body L tr va w)) = train_loss w @ [fst r]
         \<and> train_accuracy (snd (epoch_body L tr va w)) = train_accuracy w @ [snd r]
         \<and> val_loss (snd (epoch_body L tr va w)) = val_loss w @ [fst r']
         \<and> val_accuracy (snd (epoch_body L tr va w)) = val_accuracy w @ [snd r']))
 \<and> (fst (training_loop L n TR VA w) = Inr u \<longrightarrow>
       length (train_loss (snd (training_loop L n TR VA w))) = nat n
     \<and> length (train_accuracy (snd (training_loop L n TR VA w))) = nat n
     \<and> length (val_loss (snd (training_loop L n TR VA w))) = nat n
     \<and> length (val_accuracy (snd (training_loop L n TR VA w))) = nat n
     \<and> filter is_marker (calls (snd (training_loop L n TR VA w))) =
         filter is_marker (calls w)
           @ concat (map (\<lambda>i. [EvEpoch i, EvModelTrain, EvModelEval, EvPlot]) [0..<nat n])
           @ [EvClearOutput])"
proof -
  have b: "\<exists>r r'. fst (train L tr w) = Inr r
         \<and> fst (val L va (train_appended r (snd (train L tr w)))) = Inr r'
         \<and> train_loss (snd (epoch_body L tr va w)) = train_loss w @ [fst r]
         \<and> train_accuracy (snd (epoch_body L tr va w)) = train_accuracy w @ [snd r]
         \<and> val_loss (snd (epoch_body L tr va w)) = val_loss w @ [fst r']
         \<and> val_accuracy (snd (epoch_body L tr va w)) = val_accuracy w @ [snd r']"
    if "fst (epoch_body L tr va w) = Inr u"
    using epoch_body_Inr [OF that] by blast
  from train_frame [of L items w] val_frame [of L items w] epoch_loop_append [of L TR VA "is" js]
    b training_loop_Inr [of L n TR VA w u]
  show ?thesis by blast
qed


theorem C6_training_loop_witness:
  "fst (training_loop toy_lib 2 (\<lambda>_. [Inr ([0], [0])]) (\<lambda>_. [Inr ([0], [0])]) world0) = Inr ()
 \<and> length (train_loss
      (snd (training_loop toy_lib 2 (\<lambda>_. [Inr ([0], [0])]) (\<lambda>_. [Inr ([0], [0])]) world0))) = 2
 \<and> length (val_accuracy
      (snd (training_loop toy_lib 2 (\<lambda>_. [Inr ([0], [0])]) (\<lambda>_. [Inr ([0], [0])]) world0))) = 2
 \<and> filter is_marker (calls
      (snd (training_loop toy_lib 2 (\<lambda>_. [Inr ([0], [0])]) (\<lambda>_. [Inr ([0], [0])]) world0))) =
     [EvEpoch 0, EvModelTrain, EvModelEval, EvPlot,
      EvEpoch 1, EvModelTrain, EvModelEval, EvPlot, EvClearOutput]
 \<and> fst (epoch_body toy_lib [Inr ([0], [0])] [Inr ([0], [0])] world0) = Inr ()
 \<and> train_loss (snd (epoch_body toy_lib [Inr ([0], [0])] [Inr ([0], [0])] world0)) = [Number 1]
 \<and> val_accuracy (snd (epoch_body toy_lib [Inr ([0], [0])] [Inr ([0], [0])] world0)) = [1]"
proof -
  let ?TR = "\<lambda>_::nat. [Inr ([0], [0])] :: (unit + real batch) list"
  note c6 = C6_training_loop [of toy_lib "[]" world0 ?TR ?TR "[]" "[]"
      "[Inr ([0], [0])]" "[Inr ([0], [0])]" "()" 2]
  have h1: "fst (training_loop toy_lib 2 ?TR ?TR world0) = Inr ()"
    by (rule toy_training_loop)
  have h2: "fst (epoch_body toy_lib [Inr ([0], [0])] [Inr ([0], [0])] world0) = Inr ()"
    by (rule toy_epoch_body)
  have up: "[0..<nat 2] = [0, 1]"
    by (simp add: numeral_2_eq_2)
  from c6 h1 have l: "length (train_loss (snd (training_loop toy_lib 2 ?TR ?TR world0))) = nat 2"
    "length (val_accuracy (snd (training_loop toy_lib 2 ?TR ?TR world0))) = nat 2"
    "filter is_marker (calls (snd (training_loop toy_lib 2 ?TR ?TR world0))) =
         filter is_marker (calls world0)
           @ concat (map (\<lambda>i. [EvEpoch i, EvModelTrain, EvModelEval, EvPlot]) [0..<nat 2])
           @ [EvClearOutput]"
    by blast+
  from l(3) have m: "filter is_marker (calls (snd (training_loop toy_lib 2 ?TR ?TR world0))) =
     [EvEpoch 0, EvModelTrain, EvModelEval, EvPlot,
      EvEpoch 1, EvModelTrain, EvModelEval, EvPlot, EvClearOutput]"
    unfolding up by (simp add: world0_def)
  from c6 h2 obtain r r' where
    r: "fst (train toy_lib [Inr ([0], [0])] world0) = Inr r"
    "fst (val toy_lib [Inr ([0], [0])] (train_appended r (snd (train toy_lib [Inr ([0], [0])] world0)))) = Inr r'"
    "train_loss (snd (epoch_body toy_lib [Inr ([0], [0])] [Inr ([0], [0])] world0)) = train_loss world0 @ [fst r]"
    "val_accuracy (snd (epoch_body toy_lib [Inr ([0], [0])] [Inr ([0], [0])] world0)) = val_accuracy world0 @ [snd r']"
    by blast
  from r(1) have "r = (Number 1, 1)" by (simp add: toy_train_zero)
  moreover from r(2) have "r' = (Number 1, 1)" by (simp add: toy_val_zero)
  ultimately have b: "train_loss (snd (epoch_body toy_lib [Inr ([0], [0])] [Inr ([0], [0])] world0)) = [Number 1]"
    "val_accuracy (snd (epoch_body toy_lib [Inr ([0], [0])] [Inr ([0], [0])] world0)) = [1]"
    using r(3,4) by (simp_all add: world0_def)
  from h1 h2 l(1,2) m b show ?thesis by simp
qed

subsection \<open>The report needs an epoch\<close>

lemma training_loop_no_epochs:
  assumes "n \<le> 0"
  shows "training_loop L n TR VA w = (Inr (), (loop_entry w)\<lparr>calls := calls w @ [EvClearOutput]\<rparr>)"
  using assms by (simp add: training_loop_eq py_range_def bnd_ret emit_def loop_entry_def)

text \<open>
  Claim C10. With an epoch count of zero or less the loop appends nothing and the last
  cell raises ValueError, the maximum of an empty list. With a positive count \<open>n\<close>, a
  loop that completes leaves \<open>n\<close> validation accuracies, so the list is not empty and
  the last cell returns a value. The notebook's count is 50.
\<close>

theorem C10_report_needs_an_epoch:
  "(n \<le> 0 \<longrightarrow> fst (notebook L n TR VA w) = Inl ValueError)
 \<and> (0 < n \<and> fst (training_loop L n TR VA w) = Inr u \<longrightarrow>
       length (val_accuracy (snd (training_loop L n TR VA w))) = nat n
     \<and> val_accuracy (snd (training_loop L n TR VA w)) \<noteq> []
     \<and> (\<exists>v. fst (notebook L n TR VA w) = Inr v))
 \<and> 0 < epochs \<and> nat epochs = 50"
proof -
  have a: "fst (notebook L n TR VA w) = Inl ValueError" if "n \<le> 0"
    using training_loop_no_epochs [OF that, of L TR VA w]
    by (simp add: notebook_fst print_best_fst loop_entry_def)
  have b: "length (val_accuracy (snd (training_loop L n TR VA w))) = nat n
     \<and> val_accuracy (snd (training_loop L n TR VA w)) \<noteq> []
     \<and> (\<exists>v. fst (notebook L n TR VA w) = Inr v)"
    if n: "0 < n" and ok: "fst (training_loop L n TR VA w) = Inr u"
  proof -
    from training_loop_Inr [OF ok]
    have len: "length (val_accuracy (snd (training_loop L n TR VA w))) = nat n"
      by simp
    with n have ne: "val_accuracy (snd (training_loop L n TR VA w)) \<noteq> []"
      by auto
    with ok have "\<exists>v. fst (notebook L n TR VA w) = Inr v"
      by (simp add: notebook_fst print_best_fst split: list.splits)
    with len ne show ?thesis by blast
  qed
  have c: "0 < epochs \<and> nat epochs = 50"
    by (simp add: epochs_def)
  from a b c show ?thesis by blast
qed


theorem C10_report_needs_an_epoch_witness:
  "fst (notebook toy_lib 0 (\<lambda>_. [Inr ([0], [0])]) (\<lambda>_. [Inr ([0], [0])]) world0)
     = Inl ValueError
 \<and> fst (training_loop toy_lib epochs (\<lambda>_. [Inr ([0], [0])]) (\<lambda>_. [Inr ([0], [0])]) world0) = Inr ()
 \<and> length (val_accuracy
      (snd (training_loop toy_lib epochs (\<lambda>_. [Inr ([0], [0])]) (\<lambda>_. [Inr ([0], [0])]) world0))) = 50
 \<and> val_accuracy
      (snd (training_loop toy_lib epochs (\<lambda>_. [Inr ([0], [0])]) (\<lambda>_. [Inr ([0], [0])]) world0)) \<noteq> []
 \<and> (\<exists>v. fst (notebook toy_lib epochs (\<lambda>_. [Inr ([0], [0])]) (\<lambda>_. [Inr ([0], [0])]) world0) = Inr v)"
proof -
  let ?TR = "\<lambda>_::nat. [Inr ([0], [0])] :: (unit + real batch) list"
  have h1: "fst (training_loop toy_lib epochs ?TR ?TR world0) = Inr ()"
    by (rule toy_training_loop)
  have z: "fst (notebook toy_lib 0 ?TR ?TR world0) = Inl ValueError"
    using C10_report_needs_an_epoch [of 0 toy_lib ?TR ?TR world0 "()"] by simp
  note c10 = C10_report_needs_an_epoch [of epochs toy_lib ?TR ?TR world0 "()"]
  from c10 h1 have "length (val_accuracy (snd (training_loop toy_lib epochs ?TR ?TR world0))) = 50
    \<and> val_accuracy (snd (training_loop toy_lib epochs ?TR ?TR world0)) \<noteq> []
    \<and> (\<exists>v. fst (notebook toy_lib epochs ?TR ?TR world0) = Inr v)"
    by auto
  with z h1 show ?thesis by blast
qed

subsection \<open>Faults\<close>

text \<open>An exception leaves each loop and each function at once, with the world as it is.\<close>

lemma train_loop_fault:
  assumes "fst (train_loop L pre st w) = Inr st1"
    and "fst (train_batch L b st1 (snd (train_loop L pre st w))) = Inl e"
  shows "train_loop L (pre @ Inr b # post) st w =
           (Inl e, snd (train_batch L b st1 (snd (train_loop L pre st w))))"
  using assms by (simp add: train_loop_append bnd_Inr bnd_Inl)

lemma train_loop_loader_fault:
  assumes "fst (train_loop L pre st w) = Inr st1"
  shows "train_loop L (pre @ Inl f # post) st w = (Inl (Fault f), snd (train_loop L pre st w))"
  using assms by (simp add: train_loop_append bnd_Inr raise_def)

lemma val_loop_fault:
  assumes "fst (val_loop L pre st w) = Inr st1"
    and "fst (val_batch L b st1 (snd (val_loop L pre st w))) = Inl e"
  shows "val_loop L (pre @ Inr b # post) st w =
           (Inl e, snd (val_batch L b st1 (snd (val_loop L pre st w))))"
  using assms by (simp add: val_loop_append bnd_Inr bnd_Inl)

lemma val_loop_loader_fault:
  assumes "fst (val_loop L pre st w) = Inr st1"
  shows "val_loop L (pre @ Inl f # post) st w = (Inl (Fault f), snd (val_loop L pre st w))"
  using assms by (simp add: val_loop_append bnd_Inr raise_def)

lemma train_fault:
  assumes "fst (train_loop L items stats0 (train_entry w)) = Inl e"
  shows "train L items w = (Inl e, snd (train_loop L items stats0 (train_entry w)))"
  using assms by (simp add: train_eq bnd_Inl)

lemma val_fault:
  assumes "fst (val_loop L items stats0 (val_entry w)) = Inl e"
  shows "val L items w = (Inl e, val_exit w (snd (val_loop L items stats0 (val_entry w))))"
  using assms by (simp add: val_eq)

lemma epoch_body_train_fault:
  assumes "fst (train L tr w) = Inl e"
  shows "epoch_body L tr va w = (Inl e, snd (train L tr w))"
  using assms by (simp add: epoch_body_eq)

lemma epoch_body_val_fault:
  assumes "fst (train L tr w) = Inr r"
    and "fst (val L va (train_appended r (snd (train L tr w)))) = Inl e"
  shows "epoch_body L tr va w = (Inl e, snd (val L va (train_appended r (snd (train L tr w)))))"
  using assms by (simp add: epoch_body_eq)

lemma epoch_loop_fault:
  assumes "fst (epoch_loop L TR VA ks w) = Inr u"
    and "fst (epoch_body L (TR i) (VA i) (epoch_entry i (snd (epoch_loop L TR VA ks w)))) = Inl e"
  shows "epoch_loop L TR VA (ks @ i # js) w =
           (Inl e, snd (epoch_body L (TR i) (VA i) (epoch_entry i (snd (epoch_loop L TR VA ks w)))))"
proof -
  have "epoch_loop L TR VA (ks @ i # js) w =
          epoch_loop L TR VA (i # js) (snd (epoch_loop L TR VA ks w))"
    using assms(1) by (simp add: epoch_loop_append bnd_Inr)
  also have "\<dots> = (Inl e, snd (epoch_body L (TR i) (VA i) (epoch_entry i (snd (epoch_loop L TR VA ks w)))))"
    unfolding epoch_loop_Cons using assms(2) by (simp add: bnd_Inl)
  finally show ?thesis .
qed

lemma training_loop_fault:
  assumes "fst (epoch_loop L TR VA (py_range n) (loop_entry w)) = Inl e"
  shows "training_loop L n TR VA w = (Inl e, snd (epoch_loop L TR VA (py_range n) (loop_entry w)))"
  using assms by (simp add: training_loop_eq bnd_Inl)

lemma notebook_fault:
  assumes "fst (training_loop L n TR VA w) = Inl e"
  shows "notebook L n TR VA w = (Inl e, snd (training_loop L n TR VA w))"
  using assms by (simp add: notebook_def bnd_Inl)

text \<open>A fault of the library is raised by the call that met it.\<close>

lemma device_fault:
  assumes "cuda_data_fault L data = Some f"
  shows "fst (train_batch L (data, labels) st w) = Inl (Fault f)
       \<and> fst (val_batch L (data, labels) st w) = Inl (Fault f)"
  using assms by (simp add: train_batch_def val_batch_def prim_defs)

lemma labels_device_fault:
  assumes "cuda_data_fault L data = None" and "cuda_labels_fault L labels = Some f"
  shows "fst (train_batch L (data, labels) st w) = Inl (Fault f)
       \<and> fst (val_batch L (data, labels) st w) = Inl (Fault f)"
  using assms by (simp add: train_batch_def val_batch_def prim_defs)

lemma forward_fault:
  assumes "cuda_data_fault L data = None" and "cuda_labels_fault L labels = None"
    and "forward L (training w) (params w) (buffers w) data = Inl f"
  shows "fst (train_batch L (data, labels) st w) = Inl (Fault f)
       \<and> fst (val_batch L (data, labels) st w) = Inl (Fault f)"
  using assms by (simp add: train_batch_def val_batch_def prim_defs Let_def)

lemma batch_size_mismatch:
  assumes "cuda_data_fault L data = None" and "cuda_labels_fault L labels = None"
    and "forward L (training w) (params w) (buffers w) data = Inr (out, b')"
    and "length out \<noteq> length labels"
  shows "fst (train_batch L (data, labels) st w) = Inl ValueError
       \<and> fst (val_batch L (data, labels) st w) = Inl ValueError"
  using assms by (simp add: train_batch_def val_batch_def prim_defs Let_def)

lemma loss_fault:
  assumes "cuda_data_fault L data = None" and "cuda_labels_fault L labels = None"
    and "forward L (training w) (params w) (buffers w) data = Inr (out, b')"
    and "length out = length labels" and "cross_entropy L out labels = Inl f"
  shows "fst (train_batch L (data, labels) st w) = Inl (Fault f)
       \<and> fst (val_batch L (data, labels) st w) = Inl (Fault f)"
  using assms by (simp add: train_batch_def val_batch_def prim_defs Let_def)

lemma empty_row_fault:
  assumes "cuda_data_fault L data = None" and "cuda_labels_fault L labels = None"
    and "forward L (training w) (params w) (buffers w) data = Inr (out, b')"
    and "length out = length labels" and "cross_entropy L out labels = Inr loss"
    and "list_ex (\<lambda>row. row = []) out"
  shows "fst (train_batch L (data, labels) st w) = Inl IndexError
       \<and> fst (val_batch L (data, labels) st w) = Inl IndexError"
  using assms by (simp add: train_batch_def val_batch_def prim_defs Let_def)

lemma backward_fault:
  assumes "cuda_data_fault L data = None" and "cuda_labels_fault L labels = None"
    and "forward L (training w) (params w) (buffers w) data = Inr (out, b')"
    and "length out = length labels" and "cross_entropy L out labels = Inr loss"
    and "\<not> list_ex (\<lambda>row. row = []) out"
    and "gradient L (training w) (params w) b' data labels = Inl f"
  shows "fst (train_batch L (data, labels) st w) = Inl (Fault f)"
  using assms by (simp add: train_batch_def prim_defs Let_def)

lemma plot_fault_raised:
  assumes "plot_fault L (train_loss w) (val_loss w) (train_accuracy w) (val_accuracy w) = Some f"
  shows "plot L w = (Inl (Fault f), w\<lparr>calls := calls w @ [EvPlot]\<rparr>)"
  using assms by (simp add: plot_eq)

lemma epoch_body_plot_fault:
  assumes "fst (train L tr w) = Inr r"
    and "fst (val L va (train_appended r (snd (train L tr w)))) = Inr r'"
    and "fst (plot L (val_appended r' (snd (val L va (train_appended r (snd (train L tr w))))))) = Inl e"
  shows "epoch_body L tr va w =
           (Inl e, snd (plot L (val_appended r' (snd (val L va (train_appended r (snd (train L tr w))))))))"
  using assms
  by (cases "plot L (val_appended r' (snd (val L va (train_appended r (snd (train L tr w))))))")
    (simp add: epoch_body_eq)

text \<open>When no call raises, the batch completes, whatever the value of the loss.\<close>

lemma train_batch_completes:
  assumes "cuda_data_fault L data = None" and "cuda_labels_fault L labels = None"
    and "forward L (training w) (params w) (buffers w) data = Inr (out, b')"
    and "length out = length labels" and "cross_entropy L out labels = Inr loss"
    and "\<not> list_ex (\<lambda>row. row = []) out"
    and "gradient L (training w) (params w) b' data labels = Inr g"
  shows "fst (train_batch L (data, labels) st w) =
           Inr \<lparr>running_loss = pf_add (running_loss st) (pf_times loss (length data)),
                running_corrects = running_corrects st
                  + int (length (filter (\<lambda>(row, v). int (row_argmax row) = v) (zip out labels))),
                total_count = total_count st + real (length labels)\<rparr>"
  using assms
  by (simp add: train_batch_def prim_defs Let_def tensor_eq_same_length count_matches_zip)

lemma val_batch_completes:
  assumes "cuda_data_fault L data = None" and "cuda_labels_fault L labels = None"
    and "forward L (training w) (params w) (buffers w) data = Inr (out, b')"
    and "length out = length labels" and "cross_entropy L out labels = Inr loss"
    and "\<not> list_ex (\<lambda>row. row = []) out"
  shows "fst (val_batch L (data, labels) st w) =
           Inr \<lparr>running_loss = pf_add (running_loss st) (pf_times loss (length data)),
                running_corrects = running_corrects st
                  + int (length (filter (\<lambda>(row, v). int (row_argmax row) = v) (zip out labels))),
                total_count = total_count st + real (length labels)\<rparr>"
  using assms
  by (simp add: val_batch_def prim_defs Let_def tensor_eq_same_length count_matches_zip)

text \<open>A loss that is NaN raises nothing: it stays in the running loss and is returned.\<close>

lemma pf_add_NaN: "pf_add NaN x = NaN" "pf_add x NaN = NaN"
  by (cases x; simp)+

lemma train_loop_nan:
  "fst (train_loop L items st w) = Inr st' \<Longrightarrow> running_loss st = NaN \<Longrightarrow> running_loss st' = NaN"
proof (induction items arbitrary: st w)
  case Nil
  then show ?case by (simp add: ret_def)
next
  case (Cons item items)
  show ?case
  proof (cases item)
    case (Inl e)
    with Cons.prems show ?thesis by (simp add: raise_def)
  next
    case (Inr b)
    obtain data labels where b: "b = (data, labels)" by (cases b)
    from Cons.prems Inr obtain st1 where
      s1: "fst (train_batch L b st w) = Inr st1" and
      s2: "fst (train_loop L items st1 (snd (train_batch L b st w))) = Inr st'"
      by (auto dest: fst_bnd_InrD)
    from train_batch_Inr [OF s1 [unfolded b]] Cons.prems(2) have "running_loss st1 = NaN"
      by (auto simp: pf_add_NaN)
    with Cons.IH [OF s2] show ?thesis .
  qed
qed

lemma val_loop_nan:
  "fst (val_loop L items st w) = Inr st' \<Longrightarrow> running_loss st = NaN \<Longrightarrow> running_loss st' = NaN"
proof (induction items arbitrary: st w)
  case Nil
  then show ?case by (simp add: ret_def)
next
  case (Cons item items)
  show ?case
  proof (cases item)
    case (Inl e)
    with Cons.prems show ?thesis by (simp add: raise_def)
  next
    case (Inr b)
    obtain data labels where b: "b = (data, labels)" by (cases b)
    from Cons.prems Inr obtain st1 where
      s1: "fst (val_batch L b st w) = Inr st1" and
      s2: "fst (val_loop L items st1 (snd (val_batch L b st w))) = Inr st'"
      by (auto dest: fst_bnd_InrD)
    from val_batch_Inr [OF s1 [unfolded b]] Cons.prems(2) have "running_loss st1 = NaN"
      by (auto simp: pf_add_NaN)
    with Cons.IH [OF s2] show ?thesis .
  qed
qed

lemma train_nan:
  assumes "fst (train_loop L items stats0 (train_entry w)) = Inr s"
    and "running_loss s = NaN" and "total_count s \<noteq> 0"
  shows "fst (train L items w) = Inr (NaN, real_of_int (running_corrects s) / total_count s)"
  using assms by (simp add: train_fst epoch_result_eq)

lemma val_nan:
  assumes "fst (val_loop L items stats0 (val_entry w)) = Inr s"
    and "running_loss s = NaN" and "total_count s \<noteq> 0"
  shows "fst (val L items w) = Inr (NaN, real_of_int (running_corrects s) / total_count s)"
  using assms by (simp add: val_fst epoch_result_eq)

lemma nan_train_zero: "fst (train nan_lib (zero_batches i) w) = Inr (NaN, 1)"
  by (simp add: train_def train_batch_def prim_defs tensor_eq_def epoch_result_def stats0_def
      nan_lib_def toy_lib_def row_argmax_def Let_def zero_batches_def)

lemma nan_val_zero: "fst (val nan_lib (zero_batches i) w) = Inr (NaN, 1)"
  by (simp add: val_def val_batch_def prim_defs no_grad_def tensor_eq_def epoch_result_def
      stats0_def nan_lib_def toy_lib_def row_argmax_def Let_def zero_batches_def)

lemma nan_epoch_body: "fst (epoch_body nan_lib (zero_batches i) (zero_batches j) w) = Inr ()"
  by (simp add: epoch_body_eq nan_train_zero nan_val_zero plot_eq) (simp add: nan_lib_def toy_lib_def)

lemma nan_epoch_loop: "fst (epoch_loop nan_lib zero_batches zero_batches ks w) = Inr ()"
proof (induction ks arbitrary: w)
  case Nil
  show ?case by (simp add: ret_def)
next
  case (Cons i ks)
  show ?case
    unfolding epoch_loop_Cons
    by (simp add: bnd_Inr [OF nan_epoch_body] Cons.IH)
qed

lemma nan_training_loop: "fst (training_loop nan_lib n zero_batches zero_batches w) = Inr ()"
  unfolding training_loop_eq
  by (simp add: bnd_Inr [OF nan_epoch_loop] emit_def)

text \<open>
  Claim C7, as amended. Nothing in the notebook catches an exception. When the batch after
  any number of completed batches raises, or the loader does, the loop of \<^verbatim>\<open>train()\<close> or
  of \<^verbatim>\<open>val()\<close> ends with that exception and with the world as the failing call left
  it; so does the function, so does the iteration of the training loop (after a failure
  of \<^verbatim>\<open>val()\<close> or of the redraw the lists already hold the epoch's results), so does
  the loop, at whatever epoch, and so does the notebook, which then prints nothing.
  Every fault of the library is such an exception: of either transfer to the device, of
  the forward pass, of the loss (also its ValueError on an output whose batch size is
  not the labels'), of the arg-max, of the gradient, of the redraw. A loss that is NaN is
  not: the batch completes, the running loss is NaN from then on, and the epoch returns
  NaN as its mean loss.
\<close>

theorem C7_faults_propagate:
  "(fst (train_loop L pre st w) = Inr st1
      \<and> fst (train_batch L b st1 (snd (train_loop L pre st w))) = Inl e \<longrightarrow>
    train_loop L (pre @ Inr b # post) st w =
      (Inl e, snd (train_batch L b st1 (snd (train_loop L pre st w)))))
 \<and> (fst (train_loop L pre st w) = Inr st1 \<longrightarrow>
    train_loop L (pre @ Inl f # post) st w = (Inl (Fault f), snd (train_loop L pre st w)))
 \<and> (fst (val_loop L pre st w) = Inr st1
      \<and> fst (val_batch L b st1 (snd (val_loop L pre st w))) = Inl e \<longrightarrow>
    val_loop L (pre @ Inr b # post) st w =
      (Inl e, snd (val_batch L b st1 (snd (val_loop L pre st w)))))
 \<and> (fst (val_loop L pre st w) = Inr st1 \<longrightarrow>
    val_loop L (pre @ Inl f # post) st w = (Inl (Fault f), snd (val_loop L pre st w)))
 \<and> (fst (train_loop L items stats0 (train_entry w)) = Inl e \<longrightarrow>
    train L items w = (Inl e, snd (train_loop L items stats0 (train_entry w))))
 \<and> (fst (val_loop L items stats0 (val_entry w)) = Inl e \<longrightarrow>
    val L items w = (Inl e, val_exit w (snd (val_loop L items stats0 (val_entry w)))))
 \<and> (fst (train L tr w) = Inl e \<longrightarrow> epoch_body L tr va w = (Inl e, snd (train L tr w)))
 \<and> (fst (train L tr w) = Inr r
      \<and> fst (val L va (train_appended r (snd (train L tr w)))) = Inl e \<longrightarrow>
    epoch_body L tr va w = (Inl e, snd (val L va (train_appended r (snd (train L tr w))))))
 \<and> (fst (train L tr w) = Inr r
      \<and> fst (val L va (train_appended r (snd (train L tr w)))) = Inr r'
      \<and> fst (plot L (val_appended r' (snd (val L va (train_appended r (snd (train L tr w)))))))
          = Inl e \<longrightarrow>
    epoch_body L tr va w =
      (Inl e, snd (plot L (val_appended r' (snd (val L va (train_appended r (snd (train L tr w)))))))))
 \<and> (fst (epoch_loop L TR VA ks w) = Inr u
      \<and> fst (epoch_body L (TR i) (VA i) (epoch_entry i (snd (epoch_loop L TR VA ks w)))) = Inl e \<longrightarrow>
    epoch_loop L TR VA (ks @ i # js) w =
      (Inl e, snd (epoch_body L (TR i) (VA i) (epoch_entry i (snd (epoch_loop L TR VA ks w))))))
 \<and> (fst (epoch_loop L TR VA (py_range n) (loop_entry w)) = Inl e \<longrightarrow>
    training_loop L n TR VA w = (Inl e, snd (epoch_loop L TR VA (py_range n) (loop_entry w))))
 \<and> (fst (training_loop L n TR VA w) = Inl e \<longrightarrow>
    notebook L n TR VA w = (Inl e, snd (training_loop L n TR VA w)))
 \<and> (cuda_data_fault L data = Some f \<longrightarrow>
      fst (train_batch L (data, labels) st w) = Inl (Fault f)
    \<and> fst (val_batch L (data, labels) st w) = Inl (Fault f))
 \<and> (cuda_data_fault L data = None \<and> cuda_labels_fault L labels = Some f \<longrightarrow>
      fst (train_batch L (data, labels) st w) = Inl (Fault f)
    \<and> fst (val_batch L (data, labels) st w) = Inl (Fault f))
 \<and> (cuda_data_fault L data = None \<and> cuda_labels_fault L labels = None
      \<and> forward L (training w) (params w) (buffers w) data = Inl f \<longrightarrow>
      fst (train_batch L (data, labels) st w) = Inl (Fault f)
    \<and> fst (val_batch L (data, labels) st w) = Inl (Fault f))
 \<and> (cuda_data_fault L data = None \<and> cuda_labels_fault L labels = None
      \<and> forward L (training w) (params w) (buffers w) data = Inr (out, b')
      \<and> length out \<noteq> length labels \<longrightarrow>
      fst (train_batch L (data, labels) st w) = Inl ValueError
    \<and> fst (val_batch L (data, labels) st w) = Inl ValueError)
 \<and> (cuda_data_fault L data = None \<and> cuda_labels_fault L labels = None
      \<and> forward L (training w) (params w) (buffers w) data = Inr (out, b')
      \<and> length out = length labels \<and> cross_entropy L out labels = Inl f \<longrightarrow>
      fst (train_batch L (data, labels) st w) = Inl (Fault f)
    \<and> fst (val_batch L (data, labels) st w) = Inl (Fault f))
 \<and> (cuda_data_fault L data = None \<and> cuda_labels_fault L labels = None
      \<and> forward L (training w) (params w) (buffers w) data = Inr (out, b')
      \<and> length out = length labels \<and> cross_entropy L out labels = Inr loss
      \<and> list_ex (\<lambda>row. row = []) out \<longrightarrow>
      fst (train_batch L (data, labels) st w) = Inl IndexError
    \<and> fst (val_batch L (data, labels) st w) = Inl IndexError)
 \<and> (cuda_data_fault L data = None \<and> cuda_labels_fault L labels = None
      \<and> forward L (training w) (params w) (buffers w) data = Inr (out, b')
      \<and> length out = length labels \<and> cross_entropy L out labels = Inr loss
      \<and> \<not> list_ex (\<lambda>row. row = []) out
      \<and> gradient L (training w) (params w) b' data labels = Inl f \<longrightarrow>
      fst (train_batch L (data, labels) st w) = Inl (Fault f))
 \<and> (plot_fault L (train_loss w) (val_loss w) (train_accuracy w) (val_accuracy w) = Some f \<longrightarrow>
      plot L w = (Inl (Fault f), w\<lparr>calls := calls w @ [EvPlot]\<rparr>))
 \<and> (cuda_data_fault L data = None \<and> cuda_labels_fault L labels = None
      \<and> forward L (training w) (params w) (buffers w) data = Inr (out, b')
      \<and> length out = length labels \<and> cross_entropy L out labels = Inr NaN
      \<and> \<not> list_ex (\<lambda>row. row = []) out
      \<and> gradient L (training w) (params w) b' data labels = Inr g \<longrightarrow>
      fst (train_batch L (data, labels) st w) =
        Inr \<lparr>running_loss = NaN,
             running_corrects = running_corrects st
               + int (length (filter (\<lambda>(row, v). int (row_argmax row) = v) (zip out labels))),
             total_count = total_count st + real (length labels)\<rparr>
    \<and> fst (val_batch L (data, labels) st w) =
        Inr \<lparr>running_loss = NaN,
             running_corrects = running_corrects st
               + int (length (filter (\<lambda>(row, v). int (row_argmax row) = v) (zip out labels))),
             total_count = total_count st + real (length labels)\<rparr>)
 \<and> (fst (train_loop L items st w) = Inr st' \<and> running_loss st = NaN \<longrightarrow> running_loss st' = NaN)
 \<and> (fst (val_loop L items st w) = Inr st' \<and> running_loss st = NaN \<longrightarrow> running_loss st' = NaN)
 \<and> (fst (train_loop L items stats0 (train_entry w)) = Inr s \<and> running_loss s = NaN
      \<and> total_count s \<noteq> 0 \<longrightarrow>
      fst (train L items w) = Inr (NaN, real_of_int (running_corrects s) / total_count s))
 \<and> (fst (val_loop L items stats0 (val_entry w)) = Inr s \<and> running_loss s = NaN
      \<and> total_count s \<noteq> 0 \<longrightarrow>
      fst (val L items w) = Inr (NaN, real_of_int (running_corrects s) / total_count s))"
proof -
  have nan_batch: "fst (train_batch L (data, labels) st w) =
        Inr \<lparr>running_loss = NaN,
             running_corrects = running_corrects st
               + int (length (filter (\<lambda>(row, v). int (row_argmax row) = v) (zip out labels))),
             total_count = total_count st + real (length labels)\<rparr>
    \<and> fst (val_batch L (data, labels) st w) =
        Inr \<lparr>running_loss = NaN,
             running_corrects = running_corrects st
               + int (length (filter (\<lambda>(row, v). int (row_argmax row) = v) (zip out labels))),
             total_count = total_count st + real (length labels)\<rparr>"
    if "cuda_data_fault L data = None" "cuda_labels_fault L labels = None"
      "forward L (training w) (params w) (buffers w) data = Inr (out, b')"
      "length out = length labels" "cross_entropy L out labels = Inr NaN"
      "\<not> list_ex (\<lambda>row. row = []) out"
      "gradient L (training w) (params w) b' data labels = Inr g"
    using train_batch_completes [OF that, of st] val_batch_completes [OF that(1-6), of st]
    by (simp add: pf_add_NaN)
  show ?thesis
    apply (intro conjI)
    subgoal using train_loop_fault [of L pre st w st1 b e post] by blast
    subgoal using train_loop_loader_fault [of L pre st w st1 f post] by blast
    subgoal using val_loop_fault [of L pre st w st1 b e post] by blast
    subgoal using val_loop_loader_fault [of L pre st w st1 f post] by blast
    subgoal using train_fault [of L items w e] by blast
    subgoal using val_fault [of L items w e] by blast
    subgoal using epoch_body_train_fault [of L tr w e va] by blast
    subgoal using epoch_body_val_fault [of L tr w r va e] by blast
    subgoal using epoch_body_plot_fault [of L tr w r va r' e] by blast
    subgoal using epoch_loop_fault [of L TR VA ks w u i e js] by blast
    subgoal using training_loop_fault [of L TR VA n w e] by blast
    subgoal using notebook_fault [of L n TR VA w e] by blast
    subgoal using device_fault [of L data f labels st w] by blast
    subgoal using labels_device_fault [of L data labels f st w] by blast
    subgoal using forward_fault [of L data labels w f st] by blast
    subgoal using batch_size_mismatch [of L data labels w out b' st] by blast
    subgoal using loss_fault [of L data labels w out b' f st] by blast
    subgoal using empty_row_fault [of L data labels w out b' loss st] by blast
    subgoal using backward_fault [of L data labels w out b' loss f st] by blast
    subgoal using plot_fault_raised [of L w f] by blast
    subgoal using nan_batch by blast
    subgoal using train_loop_nan [of L items st w st'] by blast
    subgoal using val_loop_nan [of L items st w st'] by blast
    subgoal using train_nan [of L items w s] by blast
    subgoal using val_nan [of L items w s] by blast
    done
qed

theorem C7_faults_propagate_witness:
  "cuda_data_fault no_device_lib [0] = Some ()
 \<and> fst (train_batch no_device_lib ([0], [0]) stats0
        (train_entry (epoch_entry 0 (loop_entry world0)))) = Inl (Fault ())
 \<and> fst (train no_device_lib [Inr ([0], [0])] (epoch_entry 0 (loop_entry world0))) = Inl (Fault ())
 \<and> fst (training_loop no_device_lib 2 zero_batches zero_batches world0) = Inl (Fault ())
 \<and> fst (notebook no_device_lib 2 zero_batches zero_batches world0) = Inl (Fault ())
 \<and> calls (snd (notebook no_device_lib 2 zero_batches zero_batches world0))
      = [EvEpoch 0, EvModelTrain, EvZeroGrad, EvCuda]
 \<and> train_loss (snd (notebook no_device_lib 2 zero_batches zero_batches world0)) = []
 \<and> cross_entropy nan_lib [[0, 0]] [0] = Inr NaN
 \<and> fst (train_batch nan_lib ([0], [0]) stats0 world0)
      = Inr \<lparr>running_loss = NaN, running_corrects = 1, total_count = 1\<rparr>
 \<and> fst (train nan_lib [Inr ([0], [0])] world0) = Inr (NaN, 1)"
proof -
  let ?L = "no_device_lib"
  let ?b = "([0], [0]) :: real batch"
  let ?TR = "zero_batches"
  let ?w0 = "loop_entry world0"
  let ?w1 = "epoch_entry 0 ?w0"
  let ?w2 = "train_entry ?w1"
  let ?w3 = "snd (train_batch ?L ?b stats0 ?w2)"
  note d2 = conjunct2 [THEN conjunct2]
  note d4 = d2 [THEN d2]
  note d6 = d4 [THEN d2]
  note d9 = d6 [THEN d2, THEN conjunct2]
  note d10 = d9 [THEN conjunct2]
  note d11 = d10 [THEN conjunct2]
  note d12 = d11 [THEN conjunct2]
  note d20 = d10 [THEN d10]
  have d: "cuda_data_fault ?L [0] = Some ()"
    by (simp add: no_device_lib_def toy_lib_def)
  from C7_faults_propagate [where L = ?L and data = "[0]" and f = "()" and labels = "[0]"
      and st = stats0 and w = ?w2, THEN d12, THEN conjunct1] d
  have s1: "fst (train_batch ?L ?b stats0 ?w2) = Inl (Fault ())"
    by blast
  have p0: "fst (train_loop ?L [] stats0 ?w2) = Inr stats0" "snd (train_loop ?L [] stats0 ?w2) = ?w2"
    by (simp_all add: ret_def)
  from C7_faults_propagate [where L = ?L and pre = "[]" and st = stats0 and w = ?w2
      and ?st1.0 = stats0 and b = ?b and e = "Fault ()" and post = "[]", THEN conjunct1] p0 s1
  have s2: "train_loop ?L [Inr ?b] stats0 ?w2 = (Inl (Fault ()), ?w3)"
    by simp
  from C7_faults_propagate [where L = ?L and items = "[Inr ?b]" and w = ?w1 and e = "Fault ()",
      THEN d4, THEN conjunct1] s2
  have s3: "train ?L [Inr ?b] ?w1 = (Inl (Fault ()), ?w3)"
    by simp
  from C7_faults_propagate [where L = ?L and tr = "[Inr ?b]" and va = "[Inr ?b]" and w = ?w1
      and e = "Fault ()", THEN d6, THEN conjunct1] s3
  have s4: "epoch_body ?L [Inr ?b] [Inr ?b] ?w1 = (Inl (Fault ()), ?w3)"
    by simp
  have q0: "fst (epoch_loop ?L ?TR ?TR [] ?w0) = Inr ()" "snd (epoch_loop ?L ?TR ?TR [] ?w0) = ?w0"
    by (simp_all add: ret_def)
  from C7_faults_propagate [where L = ?L and TR = ?TR and VA = ?TR and ks = "[]" and w = ?w0
      and u = "()" and i = 0 and e = "Fault ()" and js = "[Suc 0]", THEN d9, THEN conjunct1] q0 s4
  have s5: "epoch_loop ?L ?TR ?TR [0, Suc 0] ?w0 = (Inl (Fault ()), ?w3)"
    by (simp add: zero_batches_def)
  have r2: "py_range 2 = [0, Suc 0]"
    by (simp add: py_range_def numeral_2_eq_2)
  from C7_faults_propagate [where L = ?L and TR = ?TR and VA = ?TR and n = 2 and w = world0
      and e = "Fault ()", THEN d10, THEN conjunct1] s5 r2
  have s6: "training_loop ?L 2 ?TR ?TR world0 = (Inl (Fault ()), ?w3)"
    by simp
  from C7_faults_propagate [where L = ?L and TR = ?TR and VA = ?TR and n = 2 and w = world0
      and e = "Fault ()", THEN d11, THEN conjunct1] s6
  have s7: "notebook ?L 2 ?TR ?TR world0 = (Inl (Fault ()), ?w3)"
    by simp
  have c: "calls ?w3 = [EvEpoch 0, EvModelTrain, EvZeroGrad, EvCuda]" "train_loss ?w3 = []"
    by (simp_all add: train_batch_def prim_defs no_device_lib_def toy_lib_def train_entry_def
        epoch_entry_def loop_entry_def world0_def)
  have n0: "cuda_data_fault nan_lib [0] = None" "cuda_labels_fault nan_lib [0] = None"
    "forward nan_lib (training world0) (params world0) (buffers world0) [0] = Inr ([[0, 0]], ())"
    "length [[0, 0 :: real]] = length [0 :: int]" "cross_entropy nan_lib [[0, 0]] [0] = Inr NaN"
    "\<not> list_ex (\<lambda>row. row = []) [[0, 0 :: real]]"
    "gradient nan_lib (training world0) (params world0) () [0] [0] = Inr (\<lambda>k. 0)"
    by (simp_all add: nan_lib_def toy_lib_def)
  from C7_faults_propagate [where L = nan_lib and data = "[0]" and labels = "[0]" and w = world0
      and out = "[[0, 0]]" and b' = "()" and g = "\<lambda>k. 0" and st = stats0,
      THEN d20, THEN conjunct1] n0
  have n1: "fst (train_batch nan_lib ([0], [0]) stats0 world0)
      = Inr \<lparr>running_loss = NaN, running_corrects = 1, total_count = 1\<rparr>"
    by (simp add: stats0_def row_argmax_def)
  have n2: "fst (train nan_lib [Inr ([0], [0])] world0) = Inr (NaN, 1)"
    using nan_train_zero [of 0 world0] by (simp add: zero_batches_def)
  from d s1 s3 s6 s7 c n0(5) n1 n2 show ?thesis by simp
qed

text \<open>
  With a loss that is NaN on every batch nothing is raised: \<^verbatim>\<open>train()\<close> and \<^verbatim>\<open>val()\<close>
  return NaN as the mean loss, the loop appends it and runs its 50 epochs to the end.
\<close>

theorem C7_nan_counterexample:
  "cross_entropy nan_lib [[0, 0]] [0] = Inr NaN
 \<and> fst (train nan_lib (zero_batches 0) world0) = Inr (NaN, 1)
 \<and> fst (val nan_lib (zero_batches 0) world0) = Inr (NaN, 1)
 \<and> fst (epoch_body nan_lib (zero_batches 0) (zero_batches 0) world0) = Inr ()
 \<and> train_loss (snd (epoch_body nan_lib (zero_batches 0) (zero_batches 0) world0)) = [NaN]
 \<and> val_loss (snd (epoch_body nan_lib (zero_batches 0) (zero_batches 0) world0)) = [NaN]
 \<and> fst (training_loop nan_lib epochs zero_batches zero_batches world0) = Inr ()"
proof -
  have c: "cross_entropy nan_lib [[0, 0]] [0] = Inr NaN"
    by (simp add: nan_lib_def toy_lib_def)
  have b: "fst (epoch_body nan_lib (zero_batches 0) (zero_batches 0) world0) = Inr ()"
    by (rule nan_epoch_body)
  from epoch_body_Inr [OF b] obtain r r' where
    r: "fst (train nan_lib (zero_batches 0) world0) = Inr r"
    "fst (val nan_lib (zero_batches 0)
       (train_appended r (snd (train nan_lib (zero_batches 0) world0)))) = Inr r'"
    "train_loss (snd (epoch_body nan_lib (zero_batches 0) (zero_batches 0) world0))
       = train_loss world0 @ [fst r]"
    "val_loss (snd (epoch_body nan_lib (zero_batches 0) (zero_batches 0) world0))
       = val_loss world0 @ [fst r']"
    by blast
  from r(1) have "r = (NaN, 1)" by (simp add: nan_train_zero)
  moreover from r(2) have "r' = (NaN, 1)" by (simp add: nan_val_zero)
  ultimately have l: "train_loss (snd (epoch_body nan_lib (zero_batches 0) (zero_batches 0) world0)) = [NaN]"
    "val_loss (snd (epoch_body nan_lib (zero_batches 0) (zero_batches 0) world0)) = [NaN]"
    using r(3,4) by (simp_all add: world0_def)
  from c b l nan_train_zero [of 0 world0] nan_val_zero [of 0 world0]
    nan_training_loop [of epochs world0]
  show ?thesis by simp
qed


end
